theory Spec2Isabelle
  imports Main
begin

section \<open>The relay service: data\<close>

text \<open>
  The worker's request body, as its type \<^verbatim>\<open>RequestPayload\<close> declares it: a role is one of
  two literals, the image is optional.
\<close>

datatype role = User | Assistant

record chat_message =
  role :: role
  content :: string

record RequestPayload =
  system :: string
  memory :: string
  imageDataUrl :: "string option"
  messages :: "chat_message list"

text \<open>
  What the handler reads of a request: the method, the Origin header
  (\<^verbatim>\<open>headers.get("Origin")\<close>, absent is \<open>None\<close>) and the outcome of
  \<^verbatim>\<open>request.json()\<close>, which is \<open>None\<close> when the body is not JSON and the promise
  rejects.
\<close>

record request =
  "method" :: string
  origin :: "string option"
  json_body :: "RequestPayload option"

text \<open>The environment binding; an unset binding is \<open>None\<close>.\<close>

record Env =
  GEMINI_API_KEY :: "string option"

text \<open>
  A value parsed from JSON (the upstream answer is typed \<^verbatim>\<open>any\<close>). A number is kept
  as the text JavaScript prints for it, an object as its list of properties.
\<close>

datatype json =
    JNull
  | JBool bool
  | JNum string
  | JStr string
  | JArr "json list"
  | JObj "(string \<times> json) list"

text \<open>The request sent upstream.\<close>

datatype part = TextPart string | InlineData string string

record content_entry =
  entry_role :: string
  parts :: "part list"

record gemini_body =
  systemInstruction :: "part list"
  contents :: "content_entry list"
  generationConfig :: "(string \<times> string) list"

record upstream_request =
  url :: string
  req_method :: string
  req_headers :: "(string \<times> string) list"
  req_body :: gemini_body

text \<open>
  What the upstream call gives back: a rejected promise, or a response with its status,
  its body as text and the same body parsed as JSON (\<open>None\<close> when it is not JSON).
\<close>

datatype upstream_result =
    NetworkError
  | UpstreamResponse nat string "json option"

text \<open>
  The handler's answer. \<open>JsonBody j\<close> stands for \<^verbatim>\<open>JSON.stringify(j)\<close>; \<open>headers\<close> are
  the headers the handler gives to the constructor.
\<close>

datatype body = NoBody | TextBody string | JsonBody json

record response =
  status :: nat
  resp_body :: body
  headers :: "(string \<times> string) list"

datatype error = SyntaxError | TypeError | RangeError | FetchFailed

section \<open>The relay service: operations\<close>

text \<open>
  The \<^verbatim>\<open>Response\<close> constructor of the Fetch standard: a status outside 200..599 is a
  RangeError, a body together with a null-body status is a TypeError.
\<close>

definition new_Response :: "body \<Rightarrow> nat \<Rightarrow> (string \<times> string) list \<Rightarrow> error + response" where
  "new_Response b st hs =
     (if st < 200 \<or> 599 < st then Inl RangeError
      else if b \<noteq> NoBody \<and> st \<in> {204, 205, 304} then Inl TypeError
      else Inr \<lparr>status = st, resp_body = b, headers = hs\<rparr>)"

definition corsHeaders :: "request \<Rightarrow> (string \<times> string) list" where
  "corsHeaders request =
     (let origin = (case origin request of None \<Rightarrow> ''*'' | Some v \<Rightarrow> v)
      in [(''Access-Control-Allow-Origin'', origin),
          (''Access-Control-Allow-Methods'', ''POST, OPTIONS''),
          (''Access-Control-Allow-Headers'', ''Content-Type'')])"

text \<open>\<^verbatim>\<open>s.split(",")\<close> for a one-character separator: never empty, one more field than separators.\<close>

fun split_js :: "char \<Rightarrow> string \<Rightarrow> string list" where
  "split_js c [] = [[]]"
| "split_js c (x # xs) =
     (if x = c then [] # split_js c xs
      else (case split_js c xs of
              [] \<Rightarrow> [[x]]
            | w # ws \<Rightarrow> (x # w) # ws))"

text \<open>Reading index \<open>i\<close> of an array: out of range is \<^verbatim>\<open>undefined\<close>.\<close>

definition at_index :: "'a list \<Rightarrow> nat \<Rightarrow> 'a option" where
  "at_index xs i = (if i < length xs then Some (xs ! i) else None)"

text \<open>
  The parts pushed for the image when the message is the last one and from the user:
  \<^verbatim>\<open>if (payload.imageDataUrl) { const data = payload.imageDataUrl.split(",")[1]; if (data) ... }\<close>.
\<close>

definition image_parts :: "string option \<Rightarrow> part list" where
  "image_parts img =
     (case img of
        None \<Rightarrow> []
      | Some u \<Rightarrow>
          if u = [] then []
          else (case at_index (split_js CHR '','' u) 1 of
                  None \<Rightarrow> []
                | Some d \<Rightarrow> if d = [] then [] else [InlineData ''image/png'' d]))"

text \<open>The callback of \<^verbatim>\<open>payload.messages.map((message, index) => ...)\<close>.\<close>

definition to_content :: "RequestPayload \<Rightarrow> nat \<times> chat_message \<Rightarrow> content_entry" where
  "to_content payload im =
     (case im of (index, message) \<Rightarrow>
        (let isLastUser = (int index = int (length (messages payload)) - 1 \<and> role message = User)
         in \<lparr>entry_role = (if role message = Assistant then ''model'' else ''user''),
             parts = [TextPart (content message)]
                     @ (if isLastUser then image_parts (imageDataUrl payload) else [])\<rparr>))"

definition build_contents :: "RequestPayload \<Rightarrow> content_entry list" where
  "build_contents payload = map (to_content payload) (enumerate 0 (messages payload))"

definition build_systemInstruction :: "RequestPayload \<Rightarrow> string" where
  "build_systemInstruction payload =
     system payload @ [CHR 0x0A, CHR 0x0A] @ ''Long-term memory:'' @ [CHR 0x0A] @ memory payload"

text \<open>
  The upstream call for a credential and a payload. The generation parameters are kept
  as the literals of the source.
\<close>

definition build_request :: "string \<Rightarrow> RequestPayload \<Rightarrow> upstream_request" where
  "build_request key payload =
     \<lparr>url = ''https://generativelanguage.googleapis.com/v1beta/models/gemini-2.5-flash-lite:generateContent?key='' @ key,
      req_method = ''POST'',
      req_headers = [(''Content-Type'', ''application/json'')],
      req_body = \<lparr>systemInstruction = [TextPart (build_systemInstruction payload)],
                  contents = build_contents payload,
                  generationConfig = [(''temperature'', ''0.4''), (''topP'', ''0.9''),
                                      (''maxOutputTokens'', ''800'')]\<rparr>\<rparr>"

text \<open>
  Reading the upstream answer. A property read gives \<^verbatim>\<open>undefined\<close> (\<open>None\<close>) when the
  value has no such property; the names read here (candidates, content, parts, text) are
  properties of objects only. Reading a property of \<^verbatim>\<open>null\<close> throws, which the callers
  below check before they read.
\<close>

definition get_prop :: "string \<Rightarrow> json \<Rightarrow> json option" where
  "get_prop k v = (case v of JObj props \<Rightarrow> map_of props k | _ \<Rightarrow> None)"

text \<open>\<^verbatim>\<open>v[0]\<close>: the first element of an array, the property "0" of an object, the first
  character of a string.\<close>

definition index0 :: "json \<Rightarrow> json option" where
  "index0 v =
     (case v of
        JArr xs \<Rightarrow> at_index xs 0
      | JObj props \<Rightarrow> map_of props ''0''
      | JStr s \<Rightarrow> (case s of [] \<Rightarrow> None | c # _ \<Rightarrow> Some (JStr [c]))
      | _ \<Rightarrow> None)"

definition nullish :: "json option \<Rightarrow> bool" where
  "nullish v = (v = None \<or> v = Some JNull)"

text \<open>\<^verbatim>\<open>xs.join(sep)\<close> on strings.\<close>

fun join :: "string \<Rightarrow> string list \<Rightarrow> string" where
  "join sep [] = []"
| "join sep [x] = x"
| "join sep (x # y # ys) = x @ sep @ join sep (y # ys)"

text \<open>
  JavaScript's conversion of a value to a string, as \<^verbatim>\<open>join\<close> applies it to each
  element. An object parsed from JSON with a property of its own named \<open>toString\<close> has no
  callable conversion and the conversion throws a TypeError, as does an array holding
  such an object; every other object prints as \<open>[object Object]\<close>; an array prints its
  elements joined by commas, with \<^verbatim>\<open>null\<close> printed empty.
\<close>

fun unprintable :: "json \<Rightarrow> bool" where
  "unprintable (JObj props) = (map_of props ''toString'' \<noteq> None)"
| "unprintable (JArr xs) = list_ex unprintable xs"
| "unprintable v = False"

fun js_to_string :: "json \<Rightarrow> string" where
  "js_to_string JNull = ''null''"
| "js_to_string (JBool b) = (if b then ''true'' else ''false'')"
| "js_to_string (JNum n) = n"
| "js_to_string (JStr s) = s"
| "js_to_string (JArr xs) =
     join '','' (map (\<lambda>x. if x = JNull then [] else js_to_string x) xs)"
| "js_to_string (JObj props) = ''[object Object]''"

definition join_element :: "json \<Rightarrow> string" where
  "join_element v = (if v = JNull then [] else js_to_string v)"

text \<open>\<^verbatim>\<open>values.join("")\<close>: throws where the conversion of an element throws.\<close>

definition join_values :: "json list \<Rightarrow> error + string" where
  "join_values values =
     (if list_ex unprintable values then Inl TypeError
      else Inr (join [] (map join_element values)))"

text \<open>The callback \<^verbatim>\<open>(part) => part.text ?? ""\<close>.\<close>

definition part_text :: "json \<Rightarrow> error + json" where
  "part_text p =
     (if p = JNull then Inl TypeError
      else (case get_prop ''text'' p of
              None \<Rightarrow> Inr (JStr [])
            | Some t \<Rightarrow> if t = JNull then Inr (JStr []) else Inr t))"

text \<open>\<^verbatim>\<open>xs.map(f)\<close> where \<open>f\<close> may throw: the first throw ends the loop.\<close>

fun map_throwing :: "('a \<Rightarrow> error + 'b) \<Rightarrow> 'a list \<Rightarrow> error + 'b list" where
  "map_throwing f [] = Inr []"
| "map_throwing f (x # xs) =
     (case f x of
        Inl e \<Rightarrow> Inl e
      | Inr y \<Rightarrow> (case map_throwing f xs of Inl e \<Rightarrow> Inl e | Inr ys \<Rightarrow> Inr (y # ys)))"

text \<open>
  The expression
  \<^verbatim>\<open>data.candidates?.[0]?.content?.parts?.map((part) => part.text ?? "").join("") ?? ""\<close>:
  each \<^verbatim>\<open>?.\<close> ends the whole chain with \<^verbatim>\<open>undefined\<close> on a nullish value,
  \<^verbatim>\<open>.map\<close> on a value that is not an array throws, and so does \<^verbatim>\<open>.join\<close> on a text
  that cannot be converted to a string.
\<close>

definition extract_text :: "json \<Rightarrow> error + string" where
  "extract_text data =
     (if data = JNull then Inl TypeError
      else let candidates = get_prop ''candidates'' data in
        if nullish candidates then Inr []
        else let first = index0 (the candidates) in
          if nullish first then Inr []
          else let content = get_prop ''content'' (the first) in
            if nullish content then Inr []
            else let ps = get_prop ''parts'' (the content) in
              if nullish ps then Inr []
              else (case the ps of
                      JArr xs \<Rightarrow>
                        (case map_throwing part_text xs of
                           Inl e \<Rightarrow> Inl e
                         | Inr texts \<Rightarrow> join_values texts)
                    | _ \<Rightarrow> Inl TypeError))"

text \<open>\<^verbatim>\<open>response.ok\<close>, and \<^verbatim>\<open>!value\<close> for an optional string.\<close>

definition ok :: "nat \<Rightarrow> bool" where
  "ok st = (200 \<le> st \<and> st \<le> 299)"

definition falsy :: "string option \<Rightarrow> bool" where
  "falsy v = (case v of None \<Rightarrow> True | Some s \<Rightarrow> s = [])"

text \<open>
  The handler \<^verbatim>\<open>fetch(request, env)\<close>. The upstream service is the parameter \<open>net\<close>;
  the result is the list of upstream calls made, in order, and either the response
  returned or the error thrown.
\<close>

definition fetch ::
  "(upstream_request \<Rightarrow> upstream_result) \<Rightarrow> request \<Rightarrow> Env
     \<Rightarrow> upstream_request list \<times> (error + response)" where
  "fetch net request env =
     (if method request = ''OPTIONS'' then ([], new_Response NoBody 204 (corsHeaders request))
      else if method request \<noteq> ''POST'' then
        ([], new_Response (TextBody ''Method not allowed'') 405 [])
      else (case json_body request of
              None \<Rightarrow> ([], Inl SyntaxError)
            | Some payload \<Rightarrow>
                if falsy (GEMINI_API_KEY env) then
                  ([], new_Response (TextBody ''Missing GEMINI_API_KEY'') 500 [])
                else let call = build_request (the (GEMINI_API_KEY env)) payload in
                  (case net call of
                     NetworkError \<Rightarrow> ([call], Inl FetchFailed)
                   | UpstreamResponse st errText parsed \<Rightarrow>
                       if \<not> ok st then ([call], new_Response (TextBody errText) st [])
                       else (case parsed of
                               None \<Rightarrow> ([call], Inl SyntaxError)
                             | Some data \<Rightarrow>
                                 (case extract_text data of
                                    Inl e \<Rightarrow> ([call], Inl e)
                                  | Inr text \<Rightarrow>
                                      ([call],
                                       new_Response (JsonBody (JObj [(''text'', JStr text)])) 200
                                         ((''Content-Type'', ''application/json'')
                                          # corsHeaders request)))))))"

section \<open>The relay service: the specification's vocabulary\<close>

text \<open>
  The field of a data-URL that the specification calls its payload can be read two ways.
  \<open>after_first_comma\<close> is everything that follows the first comma;
  \<open>field_after_first_comma\<close> stops at the next comma. Both are \<open>None\<close> when the
  string has no comma.
\<close>

definition after_first_comma :: "string \<Rightarrow> string option" where
  "after_first_comma u =
     (case dropWhile (\<lambda>c. c \<noteq> CHR '','') u of
        [] \<Rightarrow> None
      | _ # rest \<Rightarrow> Some rest)"

definition field_after_first_comma :: "string \<Rightarrow> string option" where
  "field_after_first_comma u =
     (case dropWhile (\<lambda>c. c \<noteq> CHR '','') u of
        [] \<Rightarrow> None
      | _ # rest \<Rightarrow> Some (takeWhile (\<lambda>c. c \<noteq> CHR '','') rest))"

text \<open>
  The shape of a successful upstream answer in the specification's words: the parts of the
  first returned candidate, a part whose text field is a string or is missing, and the
  text such a part contributes.
\<close>

definition spec_text_part :: "json \<Rightarrow> bool" where
  "spec_text_part p =
     (case p of
        JObj props \<Rightarrow>
          (case map_of props ''text'' of None \<Rightarrow> True | Some (JStr s) \<Rightarrow> True | _ \<Rightarrow> False)
      | _ \<Rightarrow> False)"

definition spec_part_text :: "json \<Rightarrow> string" where
  "spec_part_text p =
     (case p of
        JObj props \<Rightarrow> (case map_of props ''text'' of Some (JStr s) \<Rightarrow> s | _ \<Rightarrow> [])
      | _ \<Rightarrow> [])"

definition spec_first_candidate_parts :: "json \<Rightarrow> json list option" where
  "spec_first_candidate_parts data =
     (case data of
        JObj d \<Rightarrow>
          (case map_of d ''candidates'' of
             Some (JArr (JObj c # _)) \<Rightarrow>
               (case map_of c ''content'' of
                  Some (JObj ct) \<Rightarrow>
                    (case map_of ct ''parts'' of Some (JArr ps) \<Rightarrow> Some ps | _ \<Rightarrow> None)
                | _ \<Rightarrow> None)
           | _ \<Rightarrow> None)
      | _ \<Rightarrow> None)"

text \<open>
  The candidate/content/parts structure is absent: there are no candidates (missing,
  \<^verbatim>\<open>null\<close> or an empty array), or the first candidate is \<^verbatim>\<open>null\<close> or has no content, or
  its content has no parts.
\<close>

fun spec_parts_absent :: "json option \<Rightarrow> bool" where
  "spec_parts_absent None = True"
| "spec_parts_absent (Some JNull) = True"
| "spec_parts_absent (Some (JObj ct)) =
     (map_of ct ''parts'' = None \<or> map_of ct ''parts'' = Some JNull)"
| "spec_parts_absent (Some v) = False"

fun spec_candidate_absent :: "json option \<Rightarrow> bool" where
  "spec_candidate_absent None = True"
| "spec_candidate_absent (Some JNull) = True"
| "spec_candidate_absent (Some (JArr [])) = True"
| "spec_candidate_absent (Some (JArr (JNull # rest))) = True"
| "spec_candidate_absent (Some (JArr (JObj c # rest))) = spec_parts_absent (map_of c ''content'')"
| "spec_candidate_absent (Some v) = False"

definition spec_structure_absent :: "json \<Rightarrow> bool" where
  "spec_structure_absent data =
     (case data of JObj d \<Rightarrow> spec_candidate_absent (map_of d ''candidates'') | _ \<Rightarrow> False)"

text \<open>The three CORS header names.\<close>

definition cors_names :: "string list" where
  "cors_names = [''Access-Control-Allow-Origin'', ''Access-Control-Allow-Methods'',
                 ''Access-Control-Allow-Headers'']"

section \<open>The relay service: sample requests and upstream services\<close>

definition offline :: "upstream_request \<Rightarrow> upstream_result" where
  "offline call = NetworkError"

definition png_request :: request where
  "png_request =
     \<lparr>method = ''POST'', origin = None,
      json_body = Some \<lparr>system = ''S'', memory = ''M'',
                        imageDataUrl = Some ''data:image/png;base64,AAA='',
                        messages = [\<lparr>role = User, content = ''hi''\<rparr>]\<rparr>\<rparr>"

definition two_comma_request :: request where
  "two_comma_request =
     \<lparr>method = ''POST'', origin = None,
      json_body = Some \<lparr>system = ''S'', memory = ''M'',
                        imageDataUrl = Some ''data:,AAA,BBB'',
                        messages = [\<lparr>role = User, content = ''hi''\<rparr>]\<rparr>\<rparr>"

definition with_key :: Env where
  "with_key = \<lparr>GEMINI_API_KEY = Some ''k''\<rparr>"

definition without_key :: Env where
  "without_key = \<lparr>GEMINI_API_KEY = None\<rparr>"

definition unparsable_request :: request where
  "unparsable_request = \<lparr>method = ''POST'', origin = None, json_body = None\<rparr>"

definition preflight_request :: request where
  "preflight_request =
     \<lparr>method = ''OPTIONS'', origin = Some ''https://app.example'', json_body = None\<rparr>"

definition get_request :: request where
  "get_request = \<lparr>method = ''GET'', origin = None, json_body = None\<rparr>"

definition mixed_request :: request where
  "mixed_request =
     \<lparr>method = ''POST'', origin = Some ''https://app.example'',
      json_body = Some \<lparr>system = ''S'', memory = ''M'', imageDataUrl = None,
                        messages = [\<lparr>role = User, content = ''hi''\<rparr>,
                                    \<lparr>role = Assistant, content = ''hello''\<rparr>,
                                    \<lparr>role = User, content = ''why''\<rparr>]\<rparr>\<rparr>"

text \<open>An upstream service that answers with two text parts around a part without text.\<close>

definition answer_text :: string where
  \<open>answer_text = ''{"candidates":[{"content":{"parts":[{"text":"Hel"},{},{"text":"lo"}]}}]}''\<close>

definition answering :: "upstream_request \<Rightarrow> upstream_result" where
  \<open>answering call =
     UpstreamResponse 200 answer_text
       (Some (JObj [(''candidates'',
                JArr [JObj [(''content'',
                  JObj [(''parts'', JArr [JObj [(''text'', JStr ''Hel'')], JObj [],
                                          JObj [(''text'', JStr ''lo'')]])])]])]))\<close>

text \<open>An upstream service that answers without candidates.\<close>

definition answering_empty :: "upstream_request \<Rightarrow> upstream_result" where
  "answering_empty call = UpstreamResponse 200 ''{}'' (Some (JObj []))"

text \<open>An upstream service that refuses the call.\<close>

definition refusing :: "upstream_request \<Rightarrow> upstream_result" where
  "refusing call = UpstreamResponse 429 ''quota exceeded'' None"

section \<open>The persistence client\<close>

text \<open>
  A stored memory (\<^verbatim>\<open>MemoryInput\<close>) and a stored message (\<^verbatim>\<open>Omit<Message, "id">\<close>), and
  the same with the document id the store assigned. Timestamps are integers
  (\<^verbatim>\<open>Date.now()\<close>). Both kinds of document have a field \<open>createdAt\<close>; the memory's is
  written \<open>MemoryInput.createdAt\<close> below.
\<close>

record MemoryInput =
  title :: string
  detail :: string
  createdAt :: int

record MemoryItem = MemoryInput +
  memory_id :: string

record message_fields = chat_message +
  createdAt :: int

record Message = message_fields +
  message_id :: string

text \<open>
  An awaited call of an outside service resolves with a value, rejects, or never settles;
  an async function of the program returns, throws or hangs accordingly.
\<close>

datatype 'a awaited = Resolved 'a | Rejected | Pending

datatype failure =
    MissingProxyUrl
  | ProxyStatus nat
  | FetchRejected
  | JsonRejected
  | StoreRejected

datatype 'a settled = Returned 'a | Threw failure | Hung

text \<open>
  The document store: the messages of each (account, thread) and the memories of each
  account, as (document id, data) in the order they were added.
\<close>

record store =
  message_docs :: "string \<times> string \<Rightarrow> (string \<times> message_fields) list"
  memory_docs :: "string \<Rightarrow> (string \<times> MemoryInput) list"

text \<open>
  \<^verbatim>\<open>addDoc\<close>: the store assigns the id. Its outcome (the id, a rejection, no answer) is
  the first argument.
\<close>

definition addMessage ::
  "string awaited \<Rightarrow> store \<Rightarrow> string \<Rightarrow> string \<Rightarrow> message_fields \<Rightarrow> store settled" where
  "addMessage write db uid threadId message =
     (case write of
        Resolved doc \<Rightarrow>
          Returned (db\<lparr>message_docs :=
                     (message_docs db)((uid, threadId) :=
                        message_docs db (uid, threadId) @ [(doc, message)])\<rparr>)
      | Rejected \<Rightarrow> Threw StoreRejected
      | Pending \<Rightarrow> Hung)"

definition addMemory ::
  "string awaited \<Rightarrow> store \<Rightarrow> string \<Rightarrow> MemoryInput \<Rightarrow> store settled" where
  "addMemory write db uid memory_fields =
     (case write of
        Resolved doc \<Rightarrow>
          Returned (db\<lparr>memory_docs :=
                     (memory_docs db)(uid := memory_docs db uid @ [(doc, memory_fields)])\<rparr>)
      | Rejected \<Rightarrow> Threw StoreRejected
      | Pending \<Rightarrow> Hung)"

text \<open>
  The store's answer to \<^verbatim>\<open>query(ref, orderBy(field, direction), limit(n))\<close>: the
  documents ordered by the field, at most \<open>n\<close> of them. The store is an outside service;
  this is its documented behaviour, except that documents of equal field value, which
  the service orders by document id, are left here in the order they were added.
  Nothing below depends on the order of such documents.
\<close>

datatype direction = Asc | Desc

definition run_query ::
  "('d \<Rightarrow> int) \<Rightarrow> direction \<Rightarrow> nat \<Rightarrow> (string \<times> 'd) list \<Rightarrow> (string \<times> 'd) list" where
  "run_query field dir n docs =
     take n (case dir of
               Asc \<Rightarrow> sort_key (\<lambda>d. field (snd d)) docs
             | Desc \<Rightarrow> sort_key (\<lambda>d. - field (snd d)) docs)"

text \<open>
  What a snapshot listener passes to \<^verbatim>\<open>onUpdate\<close> for a given state of the store: each
  document of the query's answer with its id, \<^verbatim>\<open>{ id: doc.id, ...doc.data() }\<close>.
\<close>

definition message_item :: "string \<times> message_fields \<Rightarrow> Message" where
  "message_item doc =
     \<lparr>role = role (snd doc), content = content (snd doc), createdAt = createdAt (snd doc),
      message_id = fst doc\<rparr>"

definition memory_item :: "string \<times> MemoryInput \<Rightarrow> MemoryItem" where
  "memory_item doc =
     \<lparr>title = title (snd doc), detail = detail (snd doc),
      MemoryInput.createdAt = MemoryInput.createdAt (snd doc), memory_id = fst doc\<rparr>"

definition listenMessages :: "store \<Rightarrow> string \<Rightarrow> string \<Rightarrow> Message list" where
  "listenMessages db uid threadId =
     map message_item (run_query createdAt Asc 100 (message_docs db (uid, threadId)))"

definition listenMemories :: "store \<Rightarrow> string \<Rightarrow> MemoryItem list" where
  "listenMemories db uid =
     map memory_item (run_query MemoryInput.createdAt Desc 24 (memory_docs db uid))"

section \<open>The relay client\<close>

record MentorChatResponse =
  "text" :: string

text \<open>
  \<^verbatim>\<open>sendMentorChat\<close>. The endpoint setting and the HTTP call are parameters: the call
  resolves with a status and the body parsed as \<^verbatim>\<open>MentorChatResponse\<close> (\<open>None\<close> when
  \<^verbatim>\<open>response.json()\<close> rejects). The result is the list of payloads posted and what the
  function settles to.
\<close>

definition sendMentorChat ::
  "string option \<Rightarrow> (RequestPayload \<Rightarrow> (nat \<times> MentorChatResponse option) awaited)
     \<Rightarrow> Message list \<Rightarrow> string \<Rightarrow> string \<Rightarrow> string option
     \<Rightarrow> RequestPayload list \<times> string settled" where
  "sendMentorChat GEMINI_PROXY_URL post msgs sys mem img =
     (if falsy GEMINI_PROXY_URL then ([], Threw MissingProxyUrl)
      else let payload = \<lparr>system = sys, memory = mem, imageDataUrl = img,
                           messages = map (\<lambda>message. \<lparr>role = role message,
                                                      content = content message\<rparr>) msgs\<rparr>
        in (case post payload of
              Rejected \<Rightarrow> ([payload], Threw FetchRejected)
            | Pending \<Rightarrow> ([payload], Hung)
            | Resolved response \<Rightarrow>
                if \<not> ok (fst response) then ([payload], Threw (ProxyStatus (fst response)))
                else (case snd response of
                        None \<Rightarrow> ([payload], Threw JsonRejected)
                      | Some data \<Rightarrow> ([payload], Returned (text data)))))"

section \<open>The application shell\<close>

definition THREAD_ID :: string where
  "THREAD_ID = ''main''"

text \<open>The component's state; \<open>user\<close> is the signed-in account's uid.\<close>

record shell_state =
  user :: "string option"
  messages_state :: "Message list"
  memories :: "MemoryItem list"
  input :: string
  loading :: bool
  listening :: bool
  speaking :: bool
  autoSpeak :: bool
  autoSendVoice :: bool
  userGesture :: bool
  error_state :: "string option"

definition memorySummary :: "MemoryItem list \<Rightarrow> string" where
  "memorySummary items =
     (if length items = 0 then ''No saved memory yet.''
      else join ''\<newline>''
             (map (\<lambda>item. ''- '' @ title item @ '': '' @ detail item) (take 8 items)))"

text \<open>
  \<^verbatim>\<open>String.prototype.trim\<close> on the white space of the first 256 code units.
\<close>

definition is_space :: "char \<Rightarrow> bool" where
  "is_space c = (c \<in> {CHR 0x09, CHR 0x0A, CHR 0x0B, CHR 0x0C, CHR 0x0D, CHR 0x20, CHR 0xA0})"

definition trim :: "string \<Rightarrow> string" where
  "trim s = rev (dropWhile is_space (rev (dropWhile is_space s)))"

text \<open>
  What the outside world answers during one \<^verbatim>\<open>handleSendText\<close>: the clock, the two
  store writes, the drawing surface's snapshot (\<^verbatim>\<open>boardRef.current?.getDataUrl()\<close>), the
  mentor's system prompt (\<^verbatim>\<open>getMentorSystemPrompt()\<close>, whose module is not part of the
  sources at hand), the relay endpoint and its answer, and whether speech synthesis
  exists, its voice list gets ready and its utterance ends.
\<close>

record world =
  now :: int
  user_write :: "string awaited"
  drawing :: "string option"
  system_prompt :: string
  proxy_url :: "string option"
  proxy :: "RequestPayload \<Rightarrow> (nat \<times> MentorChatResponse option) awaited"
  now_reply :: int
  reply_write :: "string awaited"
  speech_supported :: bool
  voices_ready :: bool
  utterance_ends :: bool

text \<open>The calls the shell makes on its collaborators, in order.\<close>

datatype effect =
    AddMessage string string message_fields
  | PostToRelay RequestPayload
  | CancelSpeech
  | Speak string

record send_result =
  state :: shell_state
  db :: store
  effects :: "effect list"
  outcome :: "unit settled"

text \<open>\<^verbatim>\<open>stopSpeaking()\<close>: cancels what is being said, where speech synthesis exists.\<close>

definition stopSpeaking :: "world \<Rightarrow> effect list" where
  "stopSpeaking w = (if speech_supported w then [CancelSpeech] else [])"

text \<open>
  \<^verbatim>\<open>speakText(text, onEnd)\<close> with \<^verbatim>\<open>onEnd = () => setSpeaking(false)\<close>: without speech
  synthesis it returns at once and never calls \<open>onEnd\<close>; otherwise it waits for the
  voice list, cancels what is being said, speaks, and resolves when the utterance ends.
\<close>

definition speakText :: "world \<Rightarrow> shell_state \<Rightarrow> string \<Rightarrow> shell_state \<times> effect list \<times> unit settled" where
  "speakText w s t =
     (if \<not> speech_supported w then (s, [], Returned ())
      else if \<not> voices_ready w then (s, [], Hung)
      else if utterance_ends w then (s\<lparr>speaking := False\<rparr>, [CancelSpeech, Speak t], Returned ())
      else (s, [CancelSpeech, Speak t], Hung))"

text \<open>The relay call of \<^verbatim>\<open>handleSendText\<close>, for the trimmed text \<open>userMessage\<close>.\<close>

definition mentor_call :: "world \<Rightarrow> shell_state \<Rightarrow> string \<Rightarrow> RequestPayload list \<times> string settled" where
  "mentor_call w s userMessage =
     sendMentorChat (proxy_url w) (proxy w)
       (messages_state s @ [\<lparr>role = User, content = userMessage, createdAt = now w,
                              message_id = ''tmp''\<rparr>])
       (system_prompt w) (memorySummary (memories s)) (drawing w)"

text \<open>
  The \<^verbatim>\<open>try\<close> block of \<^verbatim>\<open>handleSendText\<close> with its \<^verbatim>\<open>catch\<close> and \<^verbatim>\<open>finally\<close>, entered
  with \<open>loading\<close> set and the effects so far.
\<close>

definition caught :: "shell_state \<Rightarrow> shell_state" where
  "caught s = s\<lparr>error_state := Some ''Unable to reach the mentor right now.'', loading := False\<rparr>"

definition try_send ::
  "world \<Rightarrow> store \<Rightarrow> shell_state \<Rightarrow> string \<Rightarrow> string \<Rightarrow> effect list \<Rightarrow> send_result" where
  "try_send w d s uid userMessage done =
     (let posted = done @ map PostToRelay (fst (mentor_call w s userMessage)) in
      case snd (mentor_call w s userMessage) of
        Hung \<Rightarrow> \<lparr>state = s, db = d, effects = posted, outcome = Hung\<rparr>
      | Threw e \<Rightarrow> \<lparr>state = caught s, db = d, effects = posted, outcome = Returned ()\<rparr>
      | Returned response \<Rightarrow>
          (let reply = \<lparr>role = Assistant, content = response, createdAt = now_reply w\<rparr>;
               written = posted @ [AddMessage uid THREAD_ID reply]
           in case addMessage (reply_write w) d uid THREAD_ID reply of
                Hung \<Rightarrow> \<lparr>state = s, db = d, effects = written, outcome = Hung\<rparr>
              | Threw e \<Rightarrow> \<lparr>state = caught s, db = d, effects = written, outcome = Returned ()\<rparr>
              | Returned d' \<Rightarrow>
                  if autoSpeak s \<and> userGesture s then
                    (let stopped = (if speaking s then stopSpeaking w else []);
                         spoken = speakText w (s\<lparr>speaking := True\<rparr>) response
                     in case snd (snd spoken) of
                          Returned u \<Rightarrow>
                            \<lparr>state = (fst spoken)\<lparr>loading := False\<rparr>, db = d',
                             effects = written @ stopped @ fst (snd spoken),
                             outcome = Returned ()\<rparr>
                        | Threw e \<Rightarrow>
                            \<lparr>state = caught (fst spoken), db = d',
                             effects = written @ stopped @ fst (snd spoken),
                             outcome = Returned ()\<rparr>
                        | Hung \<Rightarrow>
                            \<lparr>state = fst spoken, db = d',
                             effects = written @ stopped @ fst (snd spoken), outcome = Hung\<rparr>)
                  else \<lparr>state = s\<lparr>loading := False\<rparr>, db = d', effects = written,
                        outcome = Returned ()\<rparr>))"

definition handleSendText :: "world \<Rightarrow> store \<Rightarrow> shell_state \<Rightarrow> string \<Rightarrow> bool \<Rightarrow> send_result" where
  "handleSendText w d s txt fromVoice =
     (case user s of
        None \<Rightarrow> \<lparr>state = s, db = d, effects = [], outcome = Returned ()\<rparr>
      | Some uid \<Rightarrow>
          if trim txt = [] \<or> loading s then
            \<lparr>state = s, db = d, effects = [], outcome = Returned ()\<rparr>
          else
            (let s1 = s\<lparr>error_state := None\<rparr>;
                 userMessage = trim txt;
                 turn = \<lparr>role = User, content = userMessage, createdAt = now w\<rparr>
             in case addMessage (user_write w) d uid THREAD_ID turn of
                  Hung \<Rightarrow> \<lparr>state = s1, db = d, effects = [AddMessage uid THREAD_ID turn],
                            outcome = Hung\<rparr>
                | Threw e \<Rightarrow> \<lparr>state = s1, db = d, effects = [AddMessage uid THREAD_ID turn],
                               outcome = Threw e\<rparr>
                | Returned d' \<Rightarrow>
                    try_send w d'
                      ((if fromVoice then s1 else s1\<lparr>input := []\<rparr>)\<lparr>loading := True\<rparr>)
                      uid userMessage [AddMessage uid THREAD_ID turn]))"

text \<open>\<^verbatim>\<open>handleSend\<close>: the send button and the Enter key.\<close>

definition handleSend :: "world \<Rightarrow> store \<Rightarrow> shell_state \<Rightarrow> send_result" where
  "handleSend w d s =
     (if trim (input s) = [] then \<lparr>state = s, db = d, effects = [], outcome = Returned ()\<rparr>
      else handleSendText w d s (input s) False)"

section \<open>The application shell: vocabulary of the claims\<close>

text \<open>The user turn and the assistant turn that \<^verbatim>\<open>handleSendText\<close> writes.\<close>

definition user_turn :: "world \<Rightarrow> string \<Rightarrow> message_fields" where
  "user_turn w txt = \<lparr>role = User, content = trim txt, createdAt = now w\<rparr>"

definition assistant_turn :: "world \<Rightarrow> string \<Rightarrow> message_fields" where
  "assistant_turn w response = \<lparr>role = Assistant, content = response, createdAt = now_reply w\<rparr>"

text \<open>The store with one more message in the account's thread.\<close>

definition add_doc :: "store \<Rightarrow> string \<Rightarrow> string \<Rightarrow> message_fields \<Rightarrow> store" where
  "add_doc d uid doc m =
     d\<lparr>message_docs := (message_docs d)((uid, THREAD_ID) :=
          message_docs d (uid, THREAD_ID) @ [(doc, m)])\<rparr>"

text \<open>The effects of the speech bridge.\<close>

definition is_speech :: "effect \<Rightarrow> bool" where
  "is_speech e = (case e of CancelSpeech \<Rightarrow> True | Speak t \<Rightarrow> True | _ \<Rightarrow> False)"

section \<open>The application shell: a sample account\<close>

definition empty_store :: store where
  "empty_store = \<lparr>message_docs = (\<lambda>key. []), memory_docs = (\<lambda>uid. [])\<rparr>"

definition noted_store :: store where
  "noted_store =
     \<lparr>message_docs = (\<lambda>key. []),
      memory_docs = (\<lambda>uid. if uid = ''u1''
                            then [(''m1'', \<lparr>title = ''heaps'', detail = ''sift down'',
                                           MemoryInput.createdAt = 100\<rparr>),
                                  (''m2'', \<lparr>title = ''tries'', detail = ''prefix tree'',
                                           MemoryInput.createdAt = 200\<rparr>)]
                            else [])\<rparr>"

definition signed_in :: shell_state where
  "signed_in =
     \<lparr>user = Some ''u1'', messages_state = [], memories = [], input = '' hi '',
      loading = False, listening = False, speaking = False, autoSpeak = True,
      autoSendVoice = True, userGesture = False, error_state = None\<rparr>"

text \<open>A world whose relay answers 500, and one whose relay answers "Hello".\<close>

definition relay_down :: "RequestPayload \<Rightarrow> (nat \<times> MentorChatResponse option) awaited" where
  "relay_down payload = Resolved (500, None)"

definition relay_up :: "RequestPayload \<Rightarrow> (nat \<times> MentorChatResponse option) awaited" where
  "relay_up payload = Resolved (200, Some \<lparr>text = ''Hello''\<rparr>)"

definition failing_world :: world where
  "failing_world =
     \<lparr>now = 1000, user_write = Resolved ''doc1'', drawing = None,
      system_prompt = ''You are a mentor.'', proxy_url = Some ''https://relay.example'',
      proxy = relay_down, now_reply = 2000, reply_write = Resolved ''doc2'',
      speech_supported = True, voices_ready = True, utterance_ends = True\<rparr>"

definition replying_world :: world where
  "replying_world = failing_world\<lparr>proxy := relay_up\<rparr>"

section \<open>The drawing surface\<close>

datatype Tool = Pen | Erase | Line

text \<open>A point \<^verbatim>\<open>{x, y}\<close> is a pair; coordinates are whole pixels.\<close>

type_synonym Point = "int \<times> int"

text \<open>One \<^verbatim>\<open>beginPath/moveTo/lineTo/stroke\<close> with the context settings it was painted with.\<close>

record stroke =
  moveTo :: Point
  lineTo :: Point
  lineWidth :: nat
  globalCompositeOperation :: string
  strokeStyle :: string

text \<open>
  The canvas element: whether \<^verbatim>\<open>getContext("2d")\<close> gives a context, where its bounding
  rectangle starts, and the strokes painted since the bitmap was last cleared.
\<close>

record canvas =
  context2d :: bool
  rect_left :: int
  rect_top :: int
  bitmap :: "stroke list"

text \<open>
  The component's refs and state. \<open>canvasRef\<close> is \<open>None\<close> while no canvas is mounted.
  The canvas size state and its resizing are left out.
\<close>

record whiteboard =
  canvasRef :: "canvas option"
  drawingRef :: bool
  lastPointRef :: "Point option"
  lineStartRef :: "Point option"
  dirty :: bool
  tool :: Tool
  color :: string
  pen_size :: nat

record pointer_event =
  clientX :: int
  clientY :: int

definition COLORS :: "string list" where
  "COLORS = [''#0b1420'', ''#2563ff'', ''#16a34a'', ''#f97316'', ''#dc2626'', ''#8b5cf6'']"

text \<open>
  The component as first rendered around the canvas element (or none); a new canvas
  element is blank.
\<close>

definition mount :: "canvas option \<Rightarrow> whiteboard" where
  "mount c =
     \<lparr>canvasRef = map_option (\<lambda>element. element\<lparr>bitmap := []\<rparr>) c, drawingRef = False, lastPointRef = None, lineStartRef = None,
      dirty = False, tool = Pen, color = COLORS ! 0, pen_size = 3\<rparr>"

definition clearCanvas :: "whiteboard \<Rightarrow> whiteboard" where
  "clearCanvas s =
     (case canvasRef s of
        None \<Rightarrow> s
      | Some c \<Rightarrow>
          if \<not> context2d c then s
          else s\<lparr>canvasRef := Some (c\<lparr>bitmap := []\<rparr>), dirty := False\<rparr>)"

text \<open>
  The imperative handle. \<^verbatim>\<open>canvas.toDataURL("image/png")\<close> is the parameter
  \<open>toDataURL\<close>.
\<close>

definition getDataUrl :: "(canvas \<Rightarrow> string) \<Rightarrow> whiteboard \<Rightarrow> string option" where
  "getDataUrl toDataURL s =
     (case canvasRef s of
        None \<Rightarrow> None
      | Some c \<Rightarrow> if \<not> dirty s then None else Some (toDataURL c))"

definition hasDrawing :: "whiteboard \<Rightarrow> bool" where
  "hasDrawing s = dirty s"

definition getPoint :: "whiteboard \<Rightarrow> pointer_event \<Rightarrow> Point option" where
  "getPoint s event =
     (case canvasRef s of
        None \<Rightarrow> None
      | Some c \<Rightarrow> Some (clientX event - rect_left c, clientY event - rect_top c))"

text \<open>\<^verbatim>\<open>configureContext\<close> followed by the path from \<open>a\<close> to \<open>b\<close> and \<^verbatim>\<open>stroke()\<close>.\<close>

definition paint :: "whiteboard \<Rightarrow> canvas \<Rightarrow> Point \<Rightarrow> Point \<Rightarrow> canvas" where
  "paint s c a b =
     c\<lparr>bitmap := bitmap c @
         [\<lparr>moveTo = a, lineTo = b, lineWidth = pen_size s,
           globalCompositeOperation =
             (if tool s = Erase then ''destination-out'' else ''source-over''),
           strokeStyle = (if tool s = Erase then ''rgba(0,0,0,1)'' else color s)\<rparr>]\<rparr>"

definition handlePointerDown :: "pointer_event \<Rightarrow> whiteboard \<Rightarrow> whiteboard" where
  "handlePointerDown event s =
     (case getPoint s event of
        None \<Rightarrow> s
      | Some point \<Rightarrow>
          s\<lparr>drawingRef := True, lastPointRef := Some point, lineStartRef := Some point\<rparr>)"

definition handlePointerMove :: "pointer_event \<Rightarrow> whiteboard \<Rightarrow> whiteboard" where
  "handlePointerMove event s =
     (if \<not> drawingRef s then s
      else (case canvasRef s of
              None \<Rightarrow> s
            | Some c \<Rightarrow>
                if \<not> context2d c then s
                else (case (getPoint s event, lastPointRef s) of
                        (Some point, Some last') \<Rightarrow>
                          (if tool s \<noteq> Line
                           then s\<lparr>canvasRef := Some (paint s c last' point)\<rparr>
                           else s)
                          \<lparr>lastPointRef := Some point, dirty := True\<rparr>
                      | _ \<Rightarrow> s)))"

definition handlePointerUp :: "pointer_event \<Rightarrow> whiteboard \<Rightarrow> whiteboard" where
  "handlePointerUp event s =
     (if \<not> drawingRef s then s
      else let s1 = s\<lparr>drawingRef := False\<rparr> in
        if tool s = Line then
          (case canvasRef s of
             None \<Rightarrow> s1
           | Some c \<Rightarrow>
               if \<not> context2d c then s1
               else (case (lineStartRef s, getPoint s event) of
                       (Some start, Some end) \<Rightarrow>
                         s1\<lparr>canvasRef := Some (paint s c start end), dirty := True,
                            lastPointRef := None, lineStartRef := None\<rparr>
                     | _ \<Rightarrow> s1\<lparr>lastPointRef := None, lineStartRef := None\<rparr>))
        else s1\<lparr>lastPointRef := None, lineStartRef := None\<rparr>)"

text \<open>
  What the user can do to the component: the three pointer handlers (leaving the canvas
  runs the pointer-up handler), the Clear button and \<^verbatim>\<open>clear()\<close> of the handle, the tool
  buttons, a colour swatch (which also selects the pen) and the size slider.
\<close>

datatype board_event =
    PointerDown pointer_event
  | PointerMove pointer_event
  | PointerUp pointer_event
  | PointerLeave pointer_event
  | Clear
  | SetTool Tool
  | PickColor string
  | SetSize nat

fun handle :: "board_event \<Rightarrow> whiteboard \<Rightarrow> whiteboard" where
  "handle (PointerDown event) s = handlePointerDown event s"
| "handle (PointerMove event) s = handlePointerMove event s"
| "handle (PointerUp event) s = handlePointerUp event s"
| "handle (PointerLeave event) s = handlePointerUp event s"
| "handle Clear s = clearCanvas s"
| "handle (SetTool t) s = s\<lparr>tool := t\<rparr>"
| "handle (PickColor swatch) s = s\<lparr>color := swatch, tool := Pen\<rparr>"
| "handle (SetSize n) s = s\<lparr>pen_size := n\<rparr>"

text \<open>The component after a sequence of events, oldest first.\<close>

definition after :: "board_event list \<Rightarrow> whiteboard \<Rightarrow> whiteboard" where
  "after events s = fold handle events s"

text \<open>
  Something was drawn since the last clear: the mounted canvas holds a stroke.
\<close>

definition drawn_since_clear :: "whiteboard \<Rightarrow> bool" where
  "drawn_since_clear s = (case canvasRef s of None \<Rightarrow> False | Some c \<Rightarrow> bitmap c \<noteq> [])"

section \<open>The drawing surface: a sample canvas and events\<close>

definition sheet :: canvas where
  "sheet = \<lparr>context2d = True, rect_left = 10, rect_top = 20, bitmap = []\<rparr>"

definition press :: pointer_event where
  "press = \<lparr>clientX = 15, clientY = 25\<rparr>"

definition drag :: pointer_event where
  "drag = \<lparr>clientX = 40, clientY = 60\<rparr>"

text \<open>An encoder that tells only how many strokes the canvas holds.\<close>

definition stroke_count_png :: "canvas \<Rightarrow> string" where
  "stroke_count_png c = ''data:image/png;base64,'' @ replicate (length (bitmap c)) CHR ''A''"

section \<open>The drawing surface: vocabulary of the claims\<close>

text \<open>The canvas can be painted on: it is mounted and gives a 2d context.\<close>

definition available :: "whiteboard \<Rightarrow> bool" where
  "available s = (case canvasRef s of None \<Rightarrow> False | Some c \<Rightarrow> context2d c)"

text \<open>
  An event is a pointer move that \<^verbatim>\<open>handlePointerMove\<close> runs to its end with the line tool
  selected: a drag is going on, the canvas can be painted on and a last point is known.
  Such a move paints nothing.
\<close>

definition line_move :: "board_event \<Rightarrow> whiteboard \<Rightarrow> bool" where
  "line_move e s =
     (case e of
        PointerMove event \<Rightarrow>
          tool s = Line \<and> drawingRef s \<and> available s \<and> lastPointRef s \<noteq> None
      | _ \<Rightarrow> False)"

text \<open>
  The history the claims speak of, kept beside the component: whether a line-tool move
  has happened since the canvas was last cleared. A clear that wipes the canvas resets it.
\<close>

definition track :: "board_event \<Rightarrow> whiteboard \<times> bool \<Rightarrow> whiteboard \<times> bool" where
  "track e sg =
     (handle e (fst sg),
      (if e = Clear \<and> available (fst sg) then False
       else if line_move e (fst sg) then True
       else snd sg))"

definition line_moved_since_clear :: "board_event list \<Rightarrow> canvas option \<Rightarrow> bool" where
  "line_moved_since_clear events c = snd (fold track events (mount c, False))"

text \<open>
  The relation between the dirty flag, the canvas and that history which every event
  keeps.
\<close>

definition board_inv :: "whiteboard \<times> bool \<Rightarrow> bool" where
  "board_inv sg =
     ((dirty (fst sg) \<longleftrightarrow> drawn_since_clear (fst sg) \<or> snd sg)
      \<and> (dirty (fst sg) \<longrightarrow> available (fst sg)))"

text \<open>The line tool is not selected and no line-tool move has happened.\<close>

definition pen_only :: "whiteboard \<times> bool \<Rightarrow> bool" where
  "pen_only sg = (tool (fst sg) \<noteq> Line \<and> \<not> snd sg)"

section \<open>The relay service: properties\<close>

subsection \<open>Splitting the data-URL\<close>

lemma split_js_unfold:
  "split_js c s =
     takeWhile (\<lambda>x. x \<noteq> c) s
     # (case dropWhile (\<lambda>x. x \<noteq> c) s of [] \<Rightarrow> [] | _ # rest \<Rightarrow> split_js c rest)"
proof (induction s)
  case Nil
  show ?case by simp
next
  case (Cons x xs)
  show ?case
  proof (cases "x = c")
    case True
    then show ?thesis by simp
  next
    case False
    have "split_js c (x # xs) = (case split_js c xs of [] \<Rightarrow> [[x]] | w # ws \<Rightarrow> (x # w) # ws)"
      using False by simp
    also have "\<dots> = (x # takeWhile (\<lambda>x. x \<noteq> c) xs)
        # (case dropWhile (\<lambda>x. x \<noteq> c) xs of [] \<Rightarrow> [] | _ # rest \<Rightarrow> split_js c rest)"
      by (subst Cons.IH) simp
    finally show ?thesis using False by simp
  qed
qed

lemma split_js_second:
  "at_index (split_js CHR '','' u) 1 = field_after_first_comma u"
proof (cases "dropWhile (\<lambda>x. x \<noteq> CHR '','') u")
  case Nil
  have "split_js CHR '','' u = [takeWhile (\<lambda>x. x \<noteq> CHR '','') u]"
    by (subst split_js_unfold) (simp only: Nil list.case)
  then show ?thesis
    by (simp only: at_index_def field_after_first_comma_def Nil list.case) simp
next
  case (Cons a rest)
  have "split_js CHR '','' u = takeWhile (\<lambda>x. x \<noteq> CHR '','') u # split_js CHR '','' rest"
    by (subst split_js_unfold) (simp only: Cons list.case)
  also have "split_js CHR '','' rest = takeWhile (\<lambda>x. x \<noteq> CHR '','') rest
       # (case dropWhile (\<lambda>x. x \<noteq> CHR '','') rest of [] \<Rightarrow> [] | _ # r \<Rightarrow> split_js CHR '','' r)"
    by (rule split_js_unfold)
  finally show ?thesis
    by (simp only: at_index_def field_after_first_comma_def Cons list.case) simp
qed


lemma image_parts_eq:
  "image_parts img =
     (case img of None \<Rightarrow> []
      | Some u \<Rightarrow> (case field_after_first_comma u of None \<Rightarrow> []
                   | Some d \<Rightarrow> if d = [] then [] else [InlineData ''image/png'' d]))"
proof (cases img)
  case None
  then show ?thesis by (simp add: image_parts_def)
next
  case (Some u)
  show ?thesis
  proof (cases "u = []")
    case True
    with Some show ?thesis by (simp add: image_parts_def field_after_first_comma_def)
  next
    case False
    with Some show ?thesis using split_js_second [of u] by (simp add: image_parts_def)
  qed
qed

lemma nth_build_contents:
  "i < length (messages payload) \<Longrightarrow>
   build_contents payload ! i = to_content payload (i, messages payload ! i)"
  by (simp add: build_contents_def nth_enumerate_eq)

lemma length_build_contents: "length (build_contents payload) = length (messages payload)"
  by (simp add: build_contents_def)

subsection \<open>Reading the upstream answer\<close>

lemma join_empty_sep: "join [] xs = concat xs"
  by (induction "[] :: string" xs rule: join.induct) simp_all

lemma map_throwing_part_text:
  "\<forall>p\<in>set ps. spec_text_part p \<Longrightarrow>
   map_throwing part_text ps = Inr (map (\<lambda>p. JStr (spec_part_text p)) ps)"
proof (induction ps)
  case Nil
  show ?case by simp
next
  case (Cons p ps)
  from Cons.prems have "spec_text_part p" by simp
  then have "part_text p = Inr (JStr (spec_part_text p))"
    by (auto simp: spec_text_part_def spec_part_text_def part_text_def get_prop_def
             split: json.splits option.splits)
  with Cons show ?case by simp
qed

lemma join_element_JStr: "join_element (JStr s) = s"
  by (simp add: join_element_def)

lemma join_values_strings:
  "join_values (map (\<lambda>p. JStr (f p)) ps) = Inr (concat (map f ps))"
proof -
  have u: "\<not> list_ex unprintable (map (\<lambda>p. JStr (f p)) ps)"
    by (induction ps) simp_all
  have m: "map join_element (map (\<lambda>p. JStr (f p)) ps) = map f ps"
    by (induction ps) (simp_all add: join_element_JStr)
  show ?thesis
    unfolding join_values_def by (simp only: u m if_False join_empty_sep)
qed

lemma extract_text_parts:
  assumes "spec_first_candidate_parts data = Some ps" "\<forall>p\<in>set ps. spec_text_part p"
  shows "extract_text data = Inr (concat (map spec_part_text ps))"
proof -
  from assms(1) obtain d c rest ct where
    d: "data = JObj d" "map_of d ''candidates'' = Some (JArr (JObj c # rest))"
       "map_of c ''content'' = Some (JObj ct)" "map_of ct ''parts'' = Some (JArr ps)"
    by (auto simp: spec_first_candidate_parts_def split: json.splits option.splits list.splits)
  have "extract_text data =
          (case map_throwing part_text ps of
             Inl e \<Rightarrow> Inl e
           | Inr texts \<Rightarrow> join_values texts)"
    using d by (simp add: extract_text_def get_prop_def index0_def at_index_def nullish_def)
  also have "\<dots> = Inr (concat (map spec_part_text ps))"
    by (simp only: map_throwing_part_text [OF assms(2)] sum.case join_values_strings)
  finally show ?thesis .
qed

lemma extract_text_absent:
  assumes "spec_structure_absent data"
  shows "extract_text data = Inr []"
proof -
  from assms obtain d where data: "data = JObj d"
    and cand: "spec_candidate_absent (map_of d ''candidates'')"
    by (cases data) (simp_all add: spec_structure_absent_def)
  from cand show ?thesis
  proof (cases rule: spec_candidate_absent.elims(2))
    case (5 c rest)
    from 5(2) show ?thesis
    proof (cases rule: spec_parts_absent.elims(2))
      case (3 ct)
      with 5(1) show ?thesis
        by (auto simp: data extract_text_def get_prop_def index0_def at_index_def nullish_def)
    qed (use 5(1) in \<open>simp_all add: data extract_text_def get_prop_def index0_def at_index_def
                          nullish_def\<close>)
  qed (simp_all add: data extract_text_def get_prop_def index0_def at_index_def nullish_def)
qed

subsection \<open>The handler, branch by branch\<close>

lemma fetch_no_key:
  assumes "method request = ''POST''" "falsy (GEMINI_API_KEY env)"
  shows "fetch net request env =
           (case json_body request of
              None \<Rightarrow> ([], Inl SyntaxError)
            | Some payload \<Rightarrow>
                ([], Inr \<lparr>status = 500, resp_body = TextBody ''Missing GEMINI_API_KEY'',
                          headers = []\<rparr>))"
  using assms by (simp add: fetch_def new_Response_def split: option.split)

lemma fetch_upstream:
  assumes "method request = ''POST''" "json_body request = Some payload"
    "\<not> falsy (GEMINI_API_KEY env)"
  shows "fetch net request env =
     ([build_request (the (GEMINI_API_KEY env)) payload],
      (case net (build_request (the (GEMINI_API_KEY env)) payload) of
         NetworkError \<Rightarrow> Inl FetchFailed
       | UpstreamResponse st errText parsed \<Rightarrow>
           if \<not> ok st then new_Response (TextBody errText) st []
           else (case parsed of
                   None \<Rightarrow> Inl SyntaxError
                 | Some data \<Rightarrow>
                     (case extract_text data of
                        Inl e \<Rightarrow> Inl e
                      | Inr t \<Rightarrow>
                          new_Response (JsonBody (JObj [(''text'', JStr t)])) 200
                            ((''Content-Type'', ''application/json'') # corsHeaders request)))))"
  using assms
  by (simp add: fetch_def Let_def split: upstream_result.split option.split sum.split)

lemma inline_in_to_content:
  "InlineData mime d \<in> set (parts (to_content payload (i, m))) \<longleftrightarrow>
     (int i = int (length (messages payload)) - 1 \<and> role m = User \<and> mime = ''image/png''
      \<and> d \<noteq> [] \<and> (\<exists>u. imageDataUrl payload = Some u \<and> field_after_first_comma u = Some d))"
proof (cases "imageDataUrl payload")
  case None
  then show ?thesis by (simp add: to_content_def image_parts_eq)
next
  case (Some u)
  then show ?thesis
    by (cases "field_after_first_comma u") (auto simp: to_content_def image_parts_eq)
qed

lemma single_comma_field:
  assumes "after_first_comma u = Some d" "CHR '','' \<notin> set d"
  shows "field_after_first_comma u = Some d"
proof -
  from assms(1) obtain a where "dropWhile (\<lambda>c. c \<noteq> CHR '','') u = a # d"
    by (auto simp: after_first_comma_def split: list.splits)
  moreover have "takeWhile (\<lambda>c. c \<noteq> CHR '','') d = d"
    using assms(2) by (intro takeWhile_eq_all_conv [THEN iffD2]) auto
  ultimately show ?thesis by (simp add: field_after_first_comma_def)
qed

lemma fetch_returns:
  assumes "snd (fetch net request env) = Inr r"
  shows "(method request = ''OPTIONS''
            \<and> r = \<lparr>status = 204, resp_body = NoBody, headers = corsHeaders request\<rparr>)
       \<or> (method request \<noteq> ''OPTIONS'' \<and> method request \<noteq> ''POST''
            \<and> r = \<lparr>status = 405, resp_body = TextBody ''Method not allowed'', headers = []\<rparr>)
       \<or> (method request = ''POST'' \<and> falsy (GEMINI_API_KEY env)
            \<and> r = \<lparr>status = 500, resp_body = TextBody ''Missing GEMINI_API_KEY'',
                     headers = []\<rparr>)
       \<or> (method request = ''POST'' \<and> \<not> ok (status r) \<and> headers r = [])
       \<or> (method request = ''POST'' \<and> status r = 200
            \<and> headers r = (''Content-Type'', ''application/json'') # corsHeaders request)"
proof (cases "method request = ''OPTIONS''")
  case True
  with assms show ?thesis by (simp add: fetch_def new_Response_def)
next
  case notOptions: False
  show ?thesis
  proof (cases "method request = ''POST''")
    case False
    with notOptions assms show ?thesis by (simp add: fetch_def new_Response_def)
  next
    case post: True
    show ?thesis
    proof (cases "falsy (GEMINI_API_KEY env)")
      case True
      with post assms show ?thesis
        by (auto simp: fetch_no_key split: option.splits)
    next
      case False
      from post assms obtain payload where payload: "json_body request = Some payload"
        by (cases "json_body request") (simp_all add: fetch_def)
      let ?call = "build_request (the (GEMINI_API_KEY env)) payload"
      from assms obtain st errText parsed where
        up: "net ?call = UpstreamResponse st errText parsed"
        by (cases "net ?call") (simp_all add: fetch_upstream [OF post payload False])
      show ?thesis
      proof (cases "ok st")
        case False
        with assms up post payload \<open>\<not> falsy (GEMINI_API_KEY env)\<close> show ?thesis
          by (auto simp: fetch_upstream new_Response_def split: if_splits)
      next
        case True
        with assms up post payload \<open>\<not> falsy (GEMINI_API_KEY env)\<close> show ?thesis
          by (auto simp: fetch_upstream new_Response_def split: option.splits sum.splits)
      qed
    qed
  qed
qed

section \<open>The relay service: the claims\<close>

text \<open>
  C1, as the code has it. In the payload sent upstream, an inline image part is attached
  to a message if and only if that message is the last of the sequence, its role is user,
  the caller supplied imageDataUrl, and the text between the data-URL's first comma and
  its next comma (or its end) is not empty; the part carries mimeType "image/png" and
  exactly that text as data. Where the portion after the first comma has no further comma,
  that text is the whole portion.
\<close>

theorem image_part_attachment:
  assumes "method request = ''POST''" "json_body request = Some payload"
    "\<not> falsy (GEMINI_API_KEY env)"
  shows "\<exists>call. fst (fetch net request env) = [call]
           \<and> length (contents (req_body call)) = length (messages payload)
           \<and> (\<forall>i<length (messages payload). \<forall>mime d.
                 InlineData mime d \<in> set (parts (contents (req_body call) ! i)) \<longleftrightarrow>
                   (int i = int (length (messages payload)) - 1
                    \<and> role (messages payload ! i) = User
                    \<and> mime = ''image/png'' \<and> d \<noteq> []
                    \<and> (\<exists>u. imageDataUrl payload = Some u
                             \<and> field_after_first_comma u = Some d)))
           \<and> (\<forall>u d. imageDataUrl payload = Some u \<and> after_first_comma u = Some d
                       \<and> CHR '','' \<notin> set d
                   \<longrightarrow> field_after_first_comma u = Some d)"
proof -
  let ?call = "build_request (the (GEMINI_API_KEY env)) payload"
  have c: "contents (req_body ?call) = build_contents payload"
    by (simp add: build_request_def)
  have "fst (fetch net request env) = [?call]"
    using assms by (simp add: fetch_upstream)
  moreover have "length (contents (req_body ?call)) = length (messages payload)"
    by (simp only: c length_build_contents)
  moreover have "\<forall>i<length (messages payload). \<forall>mime d.
      InlineData mime d \<in> set (parts (contents (req_body ?call) ! i)) \<longleftrightarrow>
        (int i = int (length (messages payload)) - 1
         \<and> role (messages payload ! i) = User
         \<and> mime = ''image/png'' \<and> d \<noteq> []
         \<and> (\<exists>u. imageDataUrl payload = Some u \<and> field_after_first_comma u = Some d))"
    by (simp add: c nth_build_contents inline_in_to_content)
  moreover have "\<forall>u d. imageDataUrl payload = Some u \<and> after_first_comma u = Some d
                       \<and> CHR '','' \<notin> set d
                   \<longrightarrow> field_after_first_comma u = Some d"
    using single_comma_field by blast
  ultimately show ?thesis by blast
qed

text \<open>
  C1 as stated fails on a data-URL with two commas: the part carries the text up to the
  second comma, not the whole portion after the first.
\<close>

theorem image_part_attachment_counterexample:
  "map (contents \<circ> req_body) (fst (fetch offline two_comma_request with_key)) =
     [[\<lparr>entry_role = ''user'', parts = [TextPart ''hi'', InlineData ''image/png'' ''AAA'']\<rparr>]]
   \<and> after_first_comma ''data:,AAA,BBB'' = Some ''AAA,BBB''"
  by (simp add: fetch_def two_comma_request_def with_key_def falsy_def offline_def
        build_request_def build_contents_def to_content_def image_parts_def at_index_def
        after_first_comma_def enumerate_eq_zip)

theorem image_part_attachment_witness:
  "method png_request = ''POST''
   \<and> json_body png_request = Some \<lparr>system = ''S'', memory = ''M'',
                        imageDataUrl = Some ''data:image/png;base64,AAA='',
                        messages = [\<lparr>role = User, content = ''hi''\<rparr>]\<rparr>
   \<and> \<not> falsy (GEMINI_API_KEY with_key)
   \<and> (\<exists>call. fst (fetch offline png_request with_key) = [call]
          \<and> (InlineData ''image/png'' ''AAA='' \<in> set (parts (contents (req_body call) ! 0))))"
proof -
  have h: "method png_request = ''POST''"
    "json_body png_request = Some \<lparr>system = ''S'', memory = ''M'',
                        imageDataUrl = Some ''data:image/png;base64,AAA='',
                        messages = [\<lparr>role = User, content = ''hi''\<rparr>]\<rparr>"
    "\<not> falsy (GEMINI_API_KEY with_key)"
    by (simp_all add: png_request_def with_key_def falsy_def)
  have f: "field_after_first_comma ''data:image/png;base64,AAA='' = Some ''AAA=''"
    by (simp add: field_after_first_comma_def)
  from image_part_attachment [OF h, of offline] f h show ?thesis
    by fastforce
qed

text \<open>
  C2. Every message of a POST body becomes exactly one upstream content entry, in the
  same order: assistant becomes model, user stays user, and the entry's first part is the
  message's content as text.
\<close>

theorem role_mapping:
  assumes "method request = ''POST''" "json_body request = Some payload"
    "\<not> falsy (GEMINI_API_KEY env)"
  shows "\<exists>call. fst (fetch net request env) = [call]
           \<and> length (contents (req_body call)) = length (messages payload)
           \<and> map entry_role (contents (req_body call)) =
               map (\<lambda>m. case role m of Assistant \<Rightarrow> ''model'' | User \<Rightarrow> ''user'')
                 (messages payload)
           \<and> map (\<lambda>e. take 1 (parts e)) (contents (req_body call)) =
               map (\<lambda>m. [TextPart (content m)]) (messages payload)"
proof -
  have r: "map entry_role (build_contents payload) =
             map (\<lambda>m. case role m of Assistant \<Rightarrow> ''model'' | User \<Rightarrow> ''user'')
               (messages payload)"
    by (rule nth_equalityI)
       (simp_all add: length_build_contents nth_build_contents to_content_def split: role.split)
  have t: "map (\<lambda>e. take 1 (parts e)) (build_contents payload) =
             map (\<lambda>m. [TextPart (content m)]) (messages payload)"
    by (rule nth_equalityI)
       (simp_all add: length_build_contents nth_build_contents to_content_def)
  show ?thesis
    using assms r t by (simp add: fetch_upstream build_request_def length_build_contents)
qed

theorem role_mapping_witness:
  "\<exists>call. fst (fetch offline mixed_request with_key) = [call]
      \<and> map entry_role (contents (req_body call)) = [''user'', ''model'', ''user'']
      \<and> map (\<lambda>e. take 1 (parts e)) (contents (req_body call)) =
          [[TextPart ''hi''], [TextPart ''hello''], [TextPart ''why'']]"
proof -
  have h: "method mixed_request = ''POST''"
    "json_body mixed_request =
       Some \<lparr>system = ''S'', memory = ''M'', imageDataUrl = None,
             messages = [\<lparr>role = User, content = ''hi''\<rparr>,
                         \<lparr>role = Assistant, content = ''hello''\<rparr>,
                         \<lparr>role = User, content = ''why''\<rparr>]\<rparr>"
    "\<not> falsy (GEMINI_API_KEY with_key)"
    by (simp_all add: mixed_request_def with_key_def falsy_def)
  from role_mapping [OF h, of offline] show ?thesis by auto
qed

text \<open>
  C3. When the upstream call succeeds, the handler answers 200 with the JSON object
  \<open>{text}\<close>: the texts of the parts of the first candidate, concatenated in order with
  nothing between them, a part without text contributing nothing; and the empty string
  when the candidate/content/parts structure is absent.
\<close>

theorem success_text:
  assumes "method request = ''POST''" "json_body request = Some payload"
    "GEMINI_API_KEY env = Some key" "key \<noteq> []"
    "net (build_request key payload) = UpstreamResponse st raw (Some data)" "ok st"
  shows "(\<forall>ps. spec_first_candidate_parts data = Some ps \<and> (\<forall>p\<in>set ps. spec_text_part p) \<longrightarrow>
            snd (fetch net request env) =
              Inr \<lparr>status = 200,
                   resp_body = JsonBody (JObj [(''text'', JStr (concat (map spec_part_text ps)))]),
                   headers = (''Content-Type'', ''application/json'') # corsHeaders request\<rparr>)
       \<and> (spec_structure_absent data \<longrightarrow>
            snd (fetch net request env) =
              Inr \<lparr>status = 200, resp_body = JsonBody (JObj [(''text'', JStr [])]),
                   headers = (''Content-Type'', ''application/json'') # corsHeaders request\<rparr>)"
proof -
  have k: "\<not> falsy (GEMINI_API_KEY env)"
    using assms(3,4) by (simp add: falsy_def)
  have s: "snd (fetch net request env) =
             (case extract_text data of
                Inl e \<Rightarrow> Inl e
              | Inr t \<Rightarrow>
                  new_Response (JsonBody (JObj [(''text'', JStr t)])) 200
                    ((''Content-Type'', ''application/json'') # corsHeaders request))"
    using assms by (simp add: fetch_upstream [OF assms(1,2) k])
  show ?thesis
    by (simp add: s extract_text_parts extract_text_absent new_Response_def)
qed

theorem success_text_witness:
  "snd (fetch answering mixed_request with_key) =
     Inr \<lparr>status = 200, resp_body = JsonBody (JObj [(''text'', JStr ''Hello'')]),
          headers = [(''Content-Type'', ''application/json''),
                     (''Access-Control-Allow-Origin'', ''https://app.example''),
                     (''Access-Control-Allow-Methods'', ''POST, OPTIONS''),
                     (''Access-Control-Allow-Headers'', ''Content-Type'')]\<rparr>
   \<and> snd (fetch answering_empty mixed_request with_key) =
     Inr \<lparr>status = 200, resp_body = JsonBody (JObj [(''text'', JStr [])]),
          headers = [(''Content-Type'', ''application/json''),
                     (''Access-Control-Allow-Origin'', ''https://app.example''),
                     (''Access-Control-Allow-Methods'', ''POST, OPTIONS''),
                     (''Access-Control-Allow-Headers'', ''Content-Type'')]\<rparr>"
proof -
  let ?payload = "\<lparr>system = ''S'', memory = ''M'', imageDataUrl = None,
                    messages = [\<lparr>role = User, content = ''hi''\<rparr>,
                                \<lparr>role = Assistant, content = ''hello''\<rparr>,
                                \<lparr>role = User, content = ''why''\<rparr>]\<rparr>"
  let ?ps = "[JObj [(''text'', JStr ''Hel'')], JObj [], JObj [(''text'', JStr ''lo'')]]"
  let ?data = "JObj [(''candidates'', JArr [JObj [(''content'', JObj [(''parts'', JArr ?ps)])]])]"
  have h: "method mixed_request = ''POST''" "json_body mixed_request = Some ?payload"
    "GEMINI_API_KEY with_key = Some ''k''" "''k'' \<noteq> []"
    by (simp_all add: mixed_request_def with_key_def)
  have a: "answering (build_request ''k'' ?payload) = UpstreamResponse 200 answer_text (Some ?data)"
    by (simp add: answering_def)
  have e: "answering_empty (build_request ''k'' ?payload) = UpstreamResponse 200 ''{}'' (Some (JObj []))"
    by (simp add: answering_empty_def)
  have o: "ok 200" by (simp add: ok_def)
  have p: "spec_first_candidate_parts ?data = Some ?ps \<and> (\<forall>p\<in>set ?ps. spec_text_part p)"
    by (simp add: spec_first_candidate_parts_def spec_text_part_def)
  have q: "spec_structure_absent (JObj [])"
    by (simp add: spec_structure_absent_def)
  have c: "corsHeaders mixed_request =
             [(''Access-Control-Allow-Origin'', ''https://app.example''),
              (''Access-Control-Allow-Methods'', ''POST, OPTIONS''),
              (''Access-Control-Allow-Headers'', ''Content-Type'')]"
    by (simp add: corsHeaders_def mixed_request_def)
  have t: "concat (map spec_part_text ?ps) = ''Hello''"
    by (simp add: spec_part_text_def)
  from success_text [where net = answering, OF h a o] p have "snd (fetch answering mixed_request with_key) =
     Inr \<lparr>status = 200,
          resp_body = JsonBody (JObj [(''text'', JStr (concat (map spec_part_text ?ps)))]),
          headers = (''Content-Type'', ''application/json'') # corsHeaders mixed_request\<rparr>"
    by blast
  moreover from success_text [where net = answering_empty, OF h e o] q
  have "snd (fetch answering_empty mixed_request with_key) =
     Inr \<lparr>status = 200, resp_body = JsonBody (JObj [(''text'', JStr [])]),
          headers = (''Content-Type'', ''application/json'') # corsHeaders mixed_request\<rparr>"
    by blast
  ultimately show ?thesis by (simp only: c t)
qed

text \<open>
  C4, as the code has it. For every POST request whose body parses as JSON, a missing
  credential yields the 500 response "Missing GEMINI_API_KEY"; a body that does not
  parse makes the handler throw instead, since the body is read first. Either way no
  upstream call is made.
\<close>

theorem missing_credential:
  assumes "method request = ''POST''" "falsy (GEMINI_API_KEY env)"
  shows "fst (fetch net request env) = []
       \<and> snd (fetch net request env) =
           (case json_body request of
              None \<Rightarrow> Inl SyntaxError
            | Some payload \<Rightarrow>
                Inr \<lparr>status = 500, resp_body = TextBody ''Missing GEMINI_API_KEY'',
                     headers = []\<rparr>)"
  using assms by (simp add: fetch_no_key split: option.split)

text \<open>
  C4 as stated fails on a POST whose body is not JSON: without a credential the handler
  throws and returns no response.
\<close>

theorem missing_credential_counterexample:
  "method unparsable_request = ''POST'' \<and> falsy (GEMINI_API_KEY without_key)
   \<and> fetch answering unparsable_request without_key = ([], Inl SyntaxError)"
  by (simp add: fetch_def unparsable_request_def without_key_def falsy_def)

theorem missing_credential_witness:
  "method png_request = ''POST'' \<and> falsy (GEMINI_API_KEY without_key)
   \<and> fst (fetch answering png_request without_key) = []
   \<and> snd (fetch answering png_request without_key) =
       Inr \<lparr>status = 500, resp_body = TextBody ''Missing GEMINI_API_KEY'', headers = []\<rparr>"
proof -
  have h: "method png_request = ''POST''" "falsy (GEMINI_API_KEY without_key)"
    by (simp_all add: png_request_def without_key_def falsy_def)
  from missing_credential [OF h, of answering] h show ?thesis
    by (simp add: png_request_def)
qed

text \<open>
  C5. Every OPTIONS request is answered 204, whatever its body, with the CORS headers,
  Access-Control-Allow-Origin being the request's Origin (or "*" without one); every
  request whose method is neither POST nor OPTIONS is answered 405.
\<close>

theorem options_and_other_methods:
  "(method request = ''OPTIONS'' \<longrightarrow>
      fetch net request env =
        ([], Inr \<lparr>status = 204, resp_body = NoBody,
                  headers = [(''Access-Control-Allow-Origin'',
                                (case origin request of None \<Rightarrow> ''*'' | Some v \<Rightarrow> v)),
                             (''Access-Control-Allow-Methods'', ''POST, OPTIONS''),
                             (''Access-Control-Allow-Headers'', ''Content-Type'')]\<rparr>))
   \<and> (method request \<noteq> ''OPTIONS'' \<and> method request \<noteq> ''POST'' \<longrightarrow>
      fetch net request env =
        ([], Inr \<lparr>status = 405, resp_body = TextBody ''Method not allowed'', headers = []\<rparr>))"
  by (simp add: fetch_def new_Response_def corsHeaders_def)

theorem options_and_other_methods_witness:
  "fetch offline preflight_request without_key =
     ([], Inr \<lparr>status = 204, resp_body = NoBody,
               headers = [(''Access-Control-Allow-Origin'', ''https://app.example''),
                          (''Access-Control-Allow-Methods'', ''POST, OPTIONS''),
                          (''Access-Control-Allow-Headers'', ''Content-Type'')]\<rparr>)
   \<and> fetch offline get_request with_key =
     ([], Inr \<lparr>status = 405, resp_body = TextBody ''Method not allowed'', headers = []\<rparr>)"
  using options_and_other_methods [of preflight_request offline without_key]
        options_and_other_methods [of get_request offline with_key]
  by (simp add: preflight_request_def get_request_def)

text \<open>
  C6. For every POST body that reaches the upstream call, the system instruction sent is
  the caller's system string, a blank line, the header "Long-term memory:", a newline and
  the caller's memory string.
\<close>

theorem system_instruction:
  assumes "method request = ''POST''" "json_body request = Some payload"
    "\<not> falsy (GEMINI_API_KEY env)"
  shows "map (\<lambda>call. systemInstruction (req_body call)) (fst (fetch net request env)) =
           [[TextPart (system payload @ ''\<newline>\<newline>Long-term memory:\<newline>'' @ memory payload)]]"
  using assms
  by (simp add: fetch_upstream build_request_def build_systemInstruction_def)

theorem system_instruction_witness:
  "map (\<lambda>call. systemInstruction (req_body call)) (fst (fetch offline png_request with_key)) =
     [[TextPart ''S\<newline>\<newline>Long-term memory:\<newline>M'']]"
proof -
  have h: "method png_request = ''POST''"
    "json_body png_request = Some \<lparr>system = ''S'', memory = ''M'',
                        imageDataUrl = Some ''data:image/png;base64,AAA='',
                        messages = [\<lparr>role = User, content = ''hi''\<rparr>]\<rparr>"
    "\<not> falsy (GEMINI_API_KEY with_key)"
    by (simp_all add: png_request_def with_key_def falsy_def)
  from system_instruction [OF h, of offline] show ?thesis by simp
qed

text \<open>
  C10. A response of the handler carries the three CORS headers exactly when the request
  is an OPTIONS preflight or a POST answered 200; the 405, the 500 and every relayed
  upstream error carry no header at all. Without an Origin header the allowed origin
  is "*".
\<close>

theorem cors_headers:
  assumes "snd (fetch net request env) = Inr r"
  shows "(method request = ''OPTIONS'' \<or> (method request = ''POST'' \<and> status r = 200) \<longrightarrow>
            map_of (headers r) ''Access-Control-Allow-Origin'' =
              Some (case origin request of None \<Rightarrow> ''*'' | Some v \<Rightarrow> v)
            \<and> map_of (headers r) ''Access-Control-Allow-Methods'' = Some ''POST, OPTIONS''
            \<and> map_of (headers r) ''Access-Control-Allow-Headers'' = Some ''Content-Type'')
       \<and> (\<not> (method request = ''OPTIONS'' \<or> (method request = ''POST'' \<and> status r = 200)) \<longrightarrow>
            (\<forall>n\<in>set cors_names. map_of (headers r) n = None))
       \<and> (status r = 405 \<or> status r = 500 \<or> \<not> ok (status r) \<longrightarrow> headers r = [])"
  using fetch_returns [OF assms]
  by (auto simp: corsHeaders_def ok_def cors_names_def)

theorem cors_headers_witness:
  "snd (fetch answering png_request with_key) =
     Inr \<lparr>status = 200, resp_body = JsonBody (JObj [(''text'', JStr ''Hello'')]),
          headers = [(''Content-Type'', ''application/json''),
                     (''Access-Control-Allow-Origin'', ''*''),
                     (''Access-Control-Allow-Methods'', ''POST, OPTIONS''),
                     (''Access-Control-Allow-Headers'', ''Content-Type'')]\<rparr>
   \<and> snd (fetch refusing png_request with_key) =
     Inr \<lparr>status = 429, resp_body = TextBody ''quota exceeded'', headers = []\<rparr>"
proof -
  have a: "snd (fetch answering png_request with_key) =
     Inr \<lparr>status = 200, resp_body = JsonBody (JObj [(''text'', JStr ''Hello'')]),
          headers = [(''Content-Type'', ''application/json''),
                     (''Access-Control-Allow-Origin'', ''*''),
                     (''Access-Control-Allow-Methods'', ''POST, OPTIONS''),
                     (''Access-Control-Allow-Headers'', ''Content-Type'')]\<rparr>"
    by (simp add: fetch_def png_request_def with_key_def falsy_def answering_def ok_def
          extract_text_def get_prop_def index0_def at_index_def nullish_def part_text_def
          join_values_def join_element_def new_Response_def corsHeaders_def)
  have b: "snd (fetch refusing png_request with_key) =
     Inr \<lparr>status = 429, resp_body = TextBody ''quota exceeded'', headers = []\<rparr>"
    by (simp add: fetch_def png_request_def with_key_def falsy_def refusing_def ok_def
          new_Response_def)
  from cors_headers [OF a] cors_headers [OF b] a b show ?thesis by simp
qed

section \<open>The application shell: properties\<close>

subsection \<open>The memory subscription and the summary\<close>

lemma hd_join: "a \<noteq> [] \<Longrightarrow> hd (join sep (a # rest)) = hd a"
  by (cases rest) simp_all

lemma memorySummary_empty_iff:
  "memorySummary items = ''No saved memory yet.'' \<longleftrightarrow> items = []"
proof (cases items)
  case Nil
  then show ?thesis by (simp add: memorySummary_def)
next
  case (Cons x xs)
  let ?lines = "map (\<lambda>item. ''- '' @ title item @ '': '' @ detail item) xs"
  have "memorySummary items =
          join ''\<newline>'' ((''- '' @ title x @ '': '' @ detail x) # take 7 ?lines)"
    using Cons by (simp add: memorySummary_def take_Cons' take_map)
  then have "hd (memorySummary items) = CHR ''-''"
    by (simp add: hd_join)
  moreover have "hd ''No saved memory yet.'' = CHR ''N''" by simp
  ultimately have "memorySummary items \<noteq> ''No saved memory yet.''" by auto
  with Cons show ?thesis by simp
qed

lemma length_run_query: "length (run_query field dir n docs) = min n (length docs)"
  by (cases dir) (simp_all add: run_query_def min.commute)

lemma set_run_query: "set (run_query field dir n docs) \<subseteq> set docs"
proof (cases dir)
  case Asc
  then show ?thesis using set_take_subset [of n "sort_key (\<lambda>d. field (snd d)) docs"]
    by (simp add: run_query_def)
next
  case Desc
  then show ?thesis using set_take_subset [of n "sort_key (\<lambda>d. - field (snd d)) docs"]
    by (simp add: run_query_def)
qed

lemma sorted_take_map: "sorted (map f xs) \<Longrightarrow> sorted (map f (take n xs))"
  by (metis sorted_wrt_take take_map)

lemma run_query_desc_sorted:
  "sorted (map (\<lambda>d. - field (snd d)) (run_query field Desc n docs))"
  unfolding run_query_def direction.case
  by (rule sorted_take_map) (rule sorted_sort_key)

lemma run_query_desc_most_recent:
  assumes "x \<in> set (run_query field Desc n docs)"
    and "y \<in> set docs" "y \<notin> set (run_query field Desc n docs)"
  shows "field (snd y) \<le> field (snd x)"
proof -
  let ?k = "\<lambda>d. - field (snd d)"
  let ?s = "sort_key ?k docs"
  have "sorted (map ?k (take n ?s @ drop n ?s))" by simp
  then have *: "\<forall>a\<in>set (take n ?s). \<forall>b\<in>set (drop n ?s). ?k a \<le> ?k b"
    unfolding map_append sorted_append by auto
  have "y \<in> set (take n ?s) \<union> set (drop n ?s)"
    using assms(2) by (metis append_take_drop_id set_append set_sort)
  with assms(3) have "y \<in> set (drop n ?s)" by (simp add: run_query_def)
  moreover have "x \<in> set (take n ?s)" using assms(1) by (simp add: run_query_def)
  ultimately show ?thesis using * by fastforce
qed

subsection \<open>One send, case by case\<close>

lemma mentor_call_same:
  "messages_state s' = messages_state s \<Longrightarrow> memories s' = memories s \<Longrightarrow>
   mentor_call w s' u = mentor_call w s u"
  by (simp add: mentor_call_def)

lemma sendMentorChat_posts:
  "fst (sendMentorChat endpoint post msgs sys mem img) = []
   \<or> (\<exists>p. fst (sendMentorChat endpoint post msgs sys mem img) = [p])"
  by (simp add: sendMentorChat_def Let_def split: awaited.split option.split)

lemma mentor_call_posts:
  "fst (mentor_call w s u) = [] \<or> (\<exists>p. fst (mentor_call w s u) = [p])"
  unfolding mentor_call_def by (rule sendMentorChat_posts)

lemma handleSendText_guarded:
  assumes "user s = None \<or> trim typed = [] \<or> loading s"
  shows "handleSendText w d s typed fromVoice =
           \<lparr>state = s, db = d, effects = [], outcome = Returned ()\<rparr>"
  using assms by (auto simp: handleSendText_def split: option.split)

lemma handleSendText_unwritten:
  assumes "user s = Some uid" "trim typed \<noteq> []" "\<not> loading s" "\<forall>doc. user_write w \<noteq> Resolved doc"
  shows "effects (handleSendText w d s typed fromVoice) = [AddMessage uid THREAD_ID (user_turn w typed)]"
    and "db (handleSendText w d s typed fromVoice) = d"
  using assms
  by (cases "user_write w"; simp add: handleSendText_def addMessage_def user_turn_def Let_def)+

lemma handleSendText_written:
  assumes "user s = Some uid" "trim typed \<noteq> []" "\<not> loading s" "user_write w = Resolved doc"
  shows "handleSendText w d s typed fromVoice =
           try_send w (add_doc d uid doc (user_turn w typed))
             ((if fromVoice then s\<lparr>error_state := None\<rparr>
               else s\<lparr>error_state := None, input := []\<rparr>)\<lparr>loading := True\<rparr>)
             uid (trim typed) [AddMessage uid THREAD_ID (user_turn w typed)]"
  using assms
  by (simp add: handleSendText_def addMessage_def user_turn_def add_doc_def Let_def)

lemma try_send_threw:
  assumes "snd (mentor_call w s u) = Threw e"
  shows "try_send w d s uid u done =
           \<lparr>state = caught s, db = d,
            effects = done @ map PostToRelay (fst (mentor_call w s u)), outcome = Returned ()\<rparr>"
  using assms by (simp add: try_send_def Let_def)

lemma try_send_hung:
  assumes "snd (mentor_call w s u) = Hung"
  shows "try_send w d s uid u done =
           \<lparr>state = s, db = d,
            effects = done @ map PostToRelay (fst (mentor_call w s u)), outcome = Hung\<rparr>"
  using assms by (simp add: try_send_def Let_def)

lemma speakText_effects: "\<forall>e\<in>set (fst (snd (speakText w s t))). is_speech e"
  by (simp add: speakText_def is_speech_def)

lemma try_send_returned:
  assumes "snd (mentor_call w s u) = Returned response"
  shows "\<exists>tail. effects (try_send w d s uid u done) =
           done @ map PostToRelay (fst (mentor_call w s u))
           @ AddMessage uid THREAD_ID \<lparr>role = Assistant, content = response,
                                        createdAt = now_reply w\<rparr> # tail
         \<and> (\<forall>e\<in>set tail. is_speech e)"
    and "db (try_send w d s uid u done) =
           (case reply_write w of
              Resolved doc \<Rightarrow> add_doc d uid doc \<lparr>role = Assistant, content = response,
                                                  createdAt = now_reply w\<rparr>
            | _ \<Rightarrow> d)"
proof -
  let ?reply = "\<lparr>role = Assistant, content = response, createdAt = now_reply w\<rparr>"
  let ?sp = "speakText w (s\<lparr>speaking := True\<rparr>) response"
  have sp: "\<forall>e\<in>set ((if speaking s then stopSpeaking w else []) @ fst (snd ?sp)). is_speech e"
    using speakText_effects [of w "s\<lparr>speaking := True\<rparr>" response]
    by (auto simp: is_speech_def stopSpeaking_def)
  show "\<exists>tail. effects (try_send w d s uid u done) =
           done @ map PostToRelay (fst (mentor_call w s u)) @ AddMessage uid THREAD_ID ?reply # tail
         \<and> (\<forall>e\<in>set tail. is_speech e)"
  proof (cases "reply_write w")
    case (Resolved doc)
    show ?thesis
    proof (cases "autoSpeak s \<and> userGesture s")
      case True
      have "effects (try_send w d s uid u done) =
              done @ map PostToRelay (fst (mentor_call w s u)) @ AddMessage uid THREAD_ID ?reply
                # ((if speaking s then stopSpeaking w else []) @ fst (snd ?sp))"
        using assms Resolved True
        by (cases "snd (snd ?sp)") (simp_all add: try_send_def addMessage_def Let_def)
      with sp show ?thesis by blast
    next
      case False
      then show ?thesis using assms Resolved
        by (auto simp: try_send_def addMessage_def Let_def)
    qed
  qed (use assms in \<open>simp_all add: try_send_def addMessage_def Let_def\<close>)
  show "db (try_send w d s uid u done) =
           (case reply_write w of Resolved doc \<Rightarrow> add_doc d uid doc ?reply | _ \<Rightarrow> d)"
  proof (cases "reply_write w")
    case (Resolved doc)
    show ?thesis
    proof (cases "autoSpeak s \<and> userGesture s")
      case True
      then show ?thesis using assms Resolved
        by (cases "snd (snd ?sp)") (simp_all add: try_send_def addMessage_def add_doc_def Let_def)
    next
      case False
      then show ?thesis using assms Resolved
        by (auto simp: try_send_def addMessage_def add_doc_def Let_def)
    qed
  qed (use assms in \<open>simp_all add: try_send_def addMessage_def Let_def\<close>)
qed

lemma handleSendText_cases:
  fixes w d s typed fromVoice
  defines "r \<equiv> handleSendText w d s typed fromVoice"
    and "relay \<equiv> mentor_call w s (trim typed)"
    and "written \<equiv> \<lambda>uid. AddMessage uid THREAD_ID (user_turn w typed)"
  obtains
    (idle) "user s = None \<or> trim typed = [] \<or> loading s" "effects r = []" "db r = d"
  | (unwritten) uid where "user s = Some uid" "trim typed \<noteq> []" "\<not> loading s"
      "\<forall>doc. user_write w \<noteq> Resolved doc" "effects r = [written uid]" "db r = d"
  | (threw) uid doc e where "user s = Some uid" "trim typed \<noteq> []" "\<not> loading s"
      "user_write w = Resolved doc" "snd relay = Threw e"
      "effects r = written uid # map PostToRelay (fst relay)"
      "db r = add_doc d uid doc (user_turn w typed)"
      "error_state (state r) = Some ''Unable to reach the mentor right now.''"
      "\<not> loading (state r)" "outcome r = Returned ()"
  | (hung) uid doc where "user s = Some uid" "trim typed \<noteq> []" "\<not> loading s"
      "user_write w = Resolved doc" "snd relay = Hung"
      "effects r = written uid # map PostToRelay (fst relay)"
      "db r = add_doc d uid doc (user_turn w typed)"
  | (replied) uid doc response tail where "user s = Some uid" "trim typed \<noteq> []" "\<not> loading s"
      "user_write w = Resolved doc" "snd relay = Returned response"
      "effects r = written uid # map PostToRelay (fst relay)
                   @ AddMessage uid THREAD_ID (assistant_turn w response) # tail"
      "\<forall>e\<in>set tail. is_speech e"
      "db r = (case reply_write w of
                 Resolved doc' \<Rightarrow>
                   add_doc (add_doc d uid doc (user_turn w typed)) uid doc' (assistant_turn w response)
               | _ \<Rightarrow> add_doc d uid doc (user_turn w typed))"
proof (cases "user s = None \<or> trim typed = [] \<or> loading s")
  case True
  then show ?thesis
    using idle by (simp add: r_def handleSendText_guarded)
next
  case False
  then obtain uid where g: "user s = Some uid" "trim typed \<noteq> []" "\<not> loading s" by auto
  show ?thesis
  proof (cases "\<exists>doc. user_write w = Resolved doc")
    case False
    then have n: "\<forall>doc. user_write w \<noteq> Resolved doc" by simp
    show ?thesis
      using unwritten [OF g n] handleSendText_unwritten [OF g n, of d fromVoice]
      by (simp add: r_def written_def)
  next
    case True
    then obtain doc where doc: "user_write w = Resolved doc" ..
    let ?s2 = "(if fromVoice then s\<lparr>error_state := None\<rparr>
                else s\<lparr>error_state := None, input := []\<rparr>)\<lparr>loading := True\<rparr>"
    let ?d1 = "add_doc d uid doc (user_turn w typed)"
    have r: "r = try_send w ?d1 ?s2 uid (trim typed) [written uid]"
      unfolding r_def written_def by (rule handleSendText_written [OF g doc])
    have same: "mentor_call w ?s2 (trim typed) = relay"
      unfolding relay_def by (rule mentor_call_same) simp_all
    show ?thesis
    proof (cases "snd relay")
      case (Threw e)
      then have t: "snd (mentor_call w ?s2 (trim typed)) = Threw e" by (simp only: same)
      have "r = \<lparr>state = caught ?s2, db = ?d1,
                 effects = [written uid] @ map PostToRelay (fst relay), outcome = Returned ()\<rparr>"
        unfolding r by (simp only: try_send_threw [OF t] same)
      then show ?thesis
        using threw [OF g doc Threw] by (simp add: caught_def)
    next
      case Hung
      then have t: "snd (mentor_call w ?s2 (trim typed)) = Hung" by (simp only: same)
      have "r = \<lparr>state = ?s2, db = ?d1,
                 effects = [written uid] @ map PostToRelay (fst relay), outcome = Hung\<rparr>"
        unfolding r by (simp only: try_send_hung [OF t] same)
      then show ?thesis
        using hung [OF g doc Hung] by simp
    next
      case (Returned response)
      then have t: "snd (mentor_call w ?s2 (trim typed)) = Returned response" by (simp only: same)
      from try_send_returned(1) [OF t, of ?d1 uid "[written uid]"] obtain tail where
        tail: "effects r = [written uid] @ map PostToRelay (fst relay)
                 @ AddMessage uid THREAD_ID (assistant_turn w response) # tail"
          "\<forall>e\<in>set tail. is_speech e"
        unfolding r same assistant_turn_def by blast
      have "db r = (case reply_write w of
                 Resolved doc' \<Rightarrow> add_doc ?d1 uid doc' (assistant_turn w response)
               | _ \<Rightarrow> ?d1)"
        unfolding r assistant_turn_def by (rule try_send_returned(2) [OF t])
      then show ?thesis
        using replied [OF g doc Returned _ tail(2)] tail(1) by simp
    qed
  qed
qed


lemma add_doc_docs:
  "message_docs (add_doc d uid doc m) =
     (message_docs d)((uid, THREAD_ID) := message_docs d (uid, THREAD_ID) @ [(doc, m)])"
  "memory_docs (add_doc d uid doc m) = memory_docs d"
  by (simp_all add: add_doc_def)

lemma relay_after_persist:
  assumes "PostToRelay p \<in> set (effects (handleSendText w d s typed fromVoice))"
  shows "\<exists>uid doc rest. user s = Some uid \<and> user_write w = Resolved doc
           \<and> effects (handleSendText w d s typed fromVoice) =
               AddMessage uid THREAD_ID (user_turn w typed) # PostToRelay p # rest
           \<and> (doc, user_turn w typed)
               \<in> set (message_docs (db (handleSendText w d s typed fromVoice)) (uid, THREAD_ID))"
proof (cases rule: handleSendText_cases [where w = w and d = d and s = s and typed = typed and fromVoice = fromVoice])
  case idle
  with assms show ?thesis by simp
next
  case (unwritten uid)
  with assms show ?thesis by simp
next
  case (threw uid doc e)
  from assms threw(6) have "PostToRelay p \<in> set (map PostToRelay (fst (mentor_call w s (trim typed))))"
    by simp
  with mentor_call_posts [of w s "trim typed"]
  have "fst (mentor_call w s (trim typed)) = [p]" by auto
  with threw show ?thesis by (simp add: add_doc_docs)
next
  case (hung uid doc)
  from assms hung(6) have "PostToRelay p \<in> set (map PostToRelay (fst (mentor_call w s (trim typed))))"
    by simp
  with mentor_call_posts [of w s "trim typed"]
  have "fst (mentor_call w s (trim typed)) = [p]" by auto
  with hung show ?thesis by (simp add: add_doc_docs)
next
  case (replied uid doc response tail)
  from replied(7) have "PostToRelay p \<notin> set tail" by (auto simp: is_speech_def)
  with assms replied(6)
  have "PostToRelay p \<in> set (map PostToRelay (fst (mentor_call w s (trim typed))))"
    by simp
  with mentor_call_posts [of w s "trim typed"]
  have "fst (mentor_call w s (trim typed)) = [p]" by auto
  with replied show ?thesis
    by (cases "reply_write w") (simp_all add: add_doc_docs)
qed

lemma relay_failure:
  assumes "user s = Some uid" "trim typed \<noteq> []" "\<not> loading s" "user_write w = Resolved doc"
    "snd (mentor_call w s (trim typed)) = Threw e"
  shows "message_docs (db (handleSendText w d s typed fromVoice)) =
           (message_docs d)((uid, THREAD_ID) :=
              message_docs d (uid, THREAD_ID) @ [(doc, user_turn w typed)])"
    and "memory_docs (db (handleSendText w d s typed fromVoice)) = memory_docs d"
    and "effects (handleSendText w d s typed fromVoice) =
           AddMessage uid THREAD_ID (user_turn w typed)
           # map PostToRelay (fst (mentor_call w s (trim typed)))"
    and "error_state (state (handleSendText w d s typed fromVoice)) =
           Some ''Unable to reach the mentor right now.''"
    and "\<not> loading (state (handleSendText w d s typed fromVoice))"
  using assms
  by (cases rule: handleSendText_cases [where w = w and d = d and s = s and typed = typed and fromVoice = fromVoice]; simp add: add_doc_docs)+

lemma assistant_effect_only_on_success:
  assumes "AddMessage uid th m \<in> set (effects (handleSendText w d s typed fromVoice))"
    "role m = Assistant"
  shows "snd (mentor_call w s (trim typed)) = Returned (content m)"
  using assms
  by (cases rule: handleSendText_cases [where w = w and d = d and s = s and typed = typed and fromVoice = fromVoice])
     (auto simp: user_turn_def assistant_turn_def is_speech_def)

lemma assistant_doc_only_on_success:
  assumes "(doc, m) \<in> set (message_docs (db (handleSendText w d s typed fromVoice)) key)"
    "(doc, m) \<notin> set (message_docs d key)" "role m = Assistant"
  shows "snd (mentor_call w s (trim typed)) = Returned (content m)"
  using assms
  by (cases rule: handleSendText_cases [where w = w and d = d and s = s and typed = typed and fromVoice = fromVoice])
     (auto simp: user_turn_def assistant_turn_def add_doc_docs
           split: awaited.splits if_splits)

section \<open>The application shell: the claims\<close>

text \<open>
  C7. The memory summary is the empty-state text "No saved memory yet." if and only if
  the memory list is empty; otherwise it is the "- title: detail" lines of the first 8
  items (or fewer), joined by newlines. The list comes from the memory subscription: at
  most 24 stored memories, in descending order of createdAt, none of them older than a
  stored memory that was left out.
\<close>

theorem memory_summary:
  "(memorySummary items = ''No saved memory yet.'' \<longleftrightarrow> items = [])
   \<and> (items \<noteq> [] \<longrightarrow>
        memorySummary items =
          join ''\<newline>'' (map (\<lambda>item. ''- '' @ title item @ '': '' @ detail item) (take 8 items)))
   \<and> length (listenMemories d uid) = min 24 (length (memory_docs d uid))
   \<and> sorted_wrt (\<lambda>a b. MemoryInput.createdAt b \<le> MemoryInput.createdAt a) (listenMemories d uid)
   \<and> (\<forall>item\<in>set (listenMemories d uid). \<exists>doc\<in>set (memory_docs d uid). item = memory_item doc)
   \<and> (\<forall>doc\<in>set (memory_docs d uid). memory_item doc \<notin> set (listenMemories d uid) \<longrightarrow>
        (\<forall>item\<in>set (listenMemories d uid).
           MemoryInput.createdAt (snd doc) \<le> MemoryInput.createdAt item))"
proof -
  let ?q = "run_query MemoryInput.createdAt Desc 24 (memory_docs d uid)"
  have a: "memorySummary items = ''No saved memory yet.'' \<longleftrightarrow> items = []"
    by (rule memorySummary_empty_iff)
  have b: "items \<noteq> [] \<longrightarrow>
        memorySummary items =
          join ''\<newline>'' (map (\<lambda>item. ''- '' @ title item @ '': '' @ detail item) (take 8 items))"
    by (simp add: memorySummary_def)
  have c: "length (listenMemories d uid) = min 24 (length (memory_docs d uid))"
    by (simp add: listenMemories_def length_run_query)
  have "sorted (map (\<lambda>doc. - MemoryInput.createdAt (snd doc)) ?q)"
    by (rule run_query_desc_sorted)
  then have e: "sorted_wrt (\<lambda>a b. MemoryInput.createdAt b \<le> MemoryInput.createdAt a)
                  (listenMemories d uid)"
    by (simp add: listenMemories_def sorted_map sorted_wrt_map memory_item_def)
  have f: "\<forall>item\<in>set (listenMemories d uid). \<exists>doc\<in>set (memory_docs d uid). item = memory_item doc"
    using set_run_query [of MemoryInput.createdAt Desc 24 "memory_docs d uid"]
    by (auto simp: listenMemories_def)
  have g: "\<forall>doc\<in>set (memory_docs d uid). memory_item doc \<notin> set (listenMemories d uid) \<longrightarrow>
        (\<forall>item\<in>set (listenMemories d uid).
           MemoryInput.createdAt (snd doc) \<le> MemoryInput.createdAt item)"
  proof (intro ballI impI)
    fix doc item
    assume doc: "doc \<in> set (memory_docs d uid)"
      and out: "memory_item doc \<notin> set (listenMemories d uid)"
      and item: "item \<in> set (listenMemories d uid)"
    from item obtain x where x: "x \<in> set ?q" "item = memory_item x"
      by (auto simp: listenMemories_def)
    from out have "doc \<notin> set ?q" by (auto simp: listenMemories_def)
    from run_query_desc_most_recent [OF x(1) doc this]
    show "MemoryInput.createdAt (snd doc) \<le> MemoryInput.createdAt item"
      by (simp add: x(2) memory_item_def)
  qed
  from a b c e f g show ?thesis by blast
qed

theorem memory_summary_witness:
  "listenMemories noted_store ''u1'' =
     [\<lparr>title = ''tries'', detail = ''prefix tree'', MemoryInput.createdAt = 200,
       memory_id = ''m2''\<rparr>,
      \<lparr>title = ''heaps'', detail = ''sift down'', MemoryInput.createdAt = 100,
       memory_id = ''m1''\<rparr>]
   \<and> memorySummary (listenMemories noted_store ''u1'') =
       ''- tries: prefix tree\<newline>- heaps: sift down''
   \<and> memorySummary (listenMemories empty_store ''u1'') = ''No saved memory yet.''"
proof -
  have l: "listenMemories noted_store ''u1'' =
     [\<lparr>title = ''tries'', detail = ''prefix tree'', MemoryInput.createdAt = 200,
       memory_id = ''m2''\<rparr>,
      \<lparr>title = ''heaps'', detail = ''sift down'', MemoryInput.createdAt = 100,
       memory_id = ''m1''\<rparr>]"
    by (simp add: listenMemories_def noted_store_def run_query_def memory_item_def)
  have e: "listenMemories empty_store ''u1'' = []"
    by (simp add: listenMemories_def empty_store_def run_query_def)
  from memory_summary [of "listenMemories noted_store ''u1''" noted_store "''u1''"]
       memory_summary [of "listenMemories empty_store ''u1''" empty_store "''u1''"]
  show ?thesis by (simp add: l e)
qed

text \<open>
  C8. In one \<^verbatim>\<open>handleSendText\<close>: a call of the relay comes directly after the write of
  the user turn, which by then is in the store; when the relay call fails, the store holds
  the user turn and nothing else new, nothing further is done, and the error shown is the
  generic message; an assistant turn is written, and stored, only with the text the relay
  call returned.
\<close>

theorem send_turns:
  "(\<forall>p. PostToRelay p \<in> set (effects (handleSendText w d s typed fromVoice)) \<longrightarrow>
      (\<exists>uid doc rest. user s = Some uid \<and> user_write w = Resolved doc
         \<and> effects (handleSendText w d s typed fromVoice) =
             AddMessage uid THREAD_ID (user_turn w typed) # PostToRelay p # rest
         \<and> (doc, user_turn w typed)
             \<in> set (message_docs (db (handleSendText w d s typed fromVoice)) (uid, THREAD_ID))))
   \<and> (\<forall>uid doc e. user s = Some uid \<and> trim typed \<noteq> [] \<and> \<not> loading s
         \<and> user_write w = Resolved doc \<and> snd (mentor_call w s (trim typed)) = Threw e \<longrightarrow>
       message_docs (db (handleSendText w d s typed fromVoice)) =
         (message_docs d)((uid, THREAD_ID) :=
            message_docs d (uid, THREAD_ID) @ [(doc, user_turn w typed)])
       \<and> memory_docs (db (handleSendText w d s typed fromVoice)) = memory_docs d
       \<and> effects (handleSendText w d s typed fromVoice) =
           AddMessage uid THREAD_ID (user_turn w typed)
           # map PostToRelay (fst (mentor_call w s (trim typed)))
       \<and> error_state (state (handleSendText w d s typed fromVoice)) =
           Some ''Unable to reach the mentor right now.''
       \<and> \<not> loading (state (handleSendText w d s typed fromVoice)))
   \<and> (\<forall>key doc m. (doc, m) \<in> set (message_docs (db (handleSendText w d s typed fromVoice)) key)
         \<and> (doc, m) \<notin> set (message_docs d key) \<and> role m = Assistant \<longrightarrow>
       snd (mentor_call w s (trim typed)) = Returned (content m))
   \<and> (\<forall>uid th m. AddMessage uid th m \<in> set (effects (handleSendText w d s typed fromVoice))
         \<and> role m = Assistant \<longrightarrow>
       snd (mentor_call w s (trim typed)) = Returned (content m))"
proof (intro conjI allI impI)
  fix p
  assume "PostToRelay p \<in> set (effects (handleSendText w d s typed fromVoice))"
  then show "\<exists>uid doc rest. user s = Some uid \<and> user_write w = Resolved doc
         \<and> effects (handleSendText w d s typed fromVoice) =
             AddMessage uid THREAD_ID (user_turn w typed) # PostToRelay p # rest
         \<and> (doc, user_turn w typed)
             \<in> set (message_docs (db (handleSendText w d s typed fromVoice)) (uid, THREAD_ID))"
    by (rule relay_after_persist)
next
  fix uid doc e
  assume a: "user s = Some uid \<and> trim typed \<noteq> [] \<and> \<not> loading s
         \<and> user_write w = Resolved doc \<and> snd (mentor_call w s (trim typed)) = Threw e"
  then have h: "user s = Some uid" "trim typed \<noteq> []" "\<not> loading s"
    "user_write w = Resolved doc" "snd (mentor_call w s (trim typed)) = Threw e"
    by simp_all
  show "message_docs (db (handleSendText w d s typed fromVoice)) =
         (message_docs d)((uid, THREAD_ID) :=
            message_docs d (uid, THREAD_ID) @ [(doc, user_turn w typed)])"
    by (rule relay_failure(1) [OF h])
  show "memory_docs (db (handleSendText w d s typed fromVoice)) = memory_docs d"
    by (rule relay_failure(2) [OF h])
  show "effects (handleSendText w d s typed fromVoice) =
           AddMessage uid THREAD_ID (user_turn w typed)
           # map PostToRelay (fst (mentor_call w s (trim typed)))"
    by (rule relay_failure(3) [OF h])
  show "error_state (state (handleSendText w d s typed fromVoice)) =
           Some ''Unable to reach the mentor right now.''"
    by (rule relay_failure(4) [OF h])
  show "\<not> loading (state (handleSendText w d s typed fromVoice))"
    by (rule relay_failure(5) [OF h])
next
  fix key doc m
  assume "(doc, m) \<in> set (message_docs (db (handleSendText w d s typed fromVoice)) key)
         \<and> (doc, m) \<notin> set (message_docs d key) \<and> role m = Assistant"
  then show "snd (mentor_call w s (trim typed)) = Returned (content m)"
    using assistant_doc_only_on_success by blast
next
  fix uid th m
  assume "AddMessage uid th m \<in> set (effects (handleSendText w d s typed fromVoice))
         \<and> role m = Assistant"
  then show "snd (mentor_call w s (trim typed)) = Returned (content m)"
    using assistant_effect_only_on_success by blast
qed

theorem send_turns_witness:
  "snd (mentor_call failing_world signed_in (trim '' hi '')) = Threw (ProxyStatus 500)
   \<and> effects (handleSendText failing_world empty_store signed_in '' hi '' False) =
       [AddMessage ''u1'' ''main'' \<lparr>role = User, content = ''hi'', createdAt = 1000\<rparr>,
        PostToRelay \<lparr>system = ''You are a mentor.'', memory = ''No saved memory yet.'',
                     imageDataUrl = None, messages = [\<lparr>role = User, content = ''hi''\<rparr>]\<rparr>]
   \<and> message_docs (db (handleSendText failing_world empty_store signed_in '' hi '' False))
         (''u1'', ''main'') =
       [(''doc1'', \<lparr>role = User, content = ''hi'', createdAt = 1000\<rparr>)]
   \<and> error_state (state (handleSendText failing_world empty_store signed_in '' hi '' False)) =
       Some ''Unable to reach the mentor right now.''
   \<and> snd (mentor_call replying_world signed_in (trim '' hi '')) = Returned ''Hello''
   \<and> message_docs (db (handleSendText replying_world empty_store signed_in '' hi '' False))
         (''u1'', ''main'') =
       [(''doc1'', \<lparr>role = User, content = ''hi'', createdAt = 1000\<rparr>),
        (''doc2'', \<lparr>role = Assistant, content = ''Hello'', createdAt = 2000\<rparr>)]"
proof -
  have t: "trim '' hi '' = ''hi''"
    by (simp add: trim_def is_space_def)
  have c: "mentor_call failing_world signed_in ''hi'' =
             ([\<lparr>system = ''You are a mentor.'', memory = ''No saved memory yet.'',
                imageDataUrl = None, messages = [\<lparr>role = User, content = ''hi''\<rparr>]\<rparr>],
              Threw (ProxyStatus 500))"
    by (simp add: mentor_call_def sendMentorChat_def failing_world_def signed_in_def
          relay_down_def falsy_def ok_def memorySummary_def)
  have h: "user signed_in = Some ''u1'' \<and> trim '' hi '' \<noteq> [] \<and> \<not> loading signed_in
         \<and> user_write failing_world = Resolved ''doc1''
         \<and> snd (mentor_call failing_world signed_in (trim '' hi '')) = Threw (ProxyStatus 500)"
    by (simp add: t c) (simp add: signed_in_def failing_world_def)
  have u: "user_turn failing_world '' hi '' = \<lparr>role = User, content = ''hi'', createdAt = 1000\<rparr>"
    by (simp add: user_turn_def t failing_world_def)
  have r: "handleSendText replying_world empty_store signed_in '' hi '' False =
     \<lparr>state = signed_in\<lparr>input := []\<rparr>,
      db = add_doc (add_doc empty_store ''u1'' ''doc1''
                      \<lparr>role = User, content = ''hi'', createdAt = 1000\<rparr>) ''u1'' ''doc2''
             \<lparr>role = Assistant, content = ''Hello'', createdAt = 2000\<rparr>,
      effects = [AddMessage ''u1'' ''main'' \<lparr>role = User, content = ''hi'', createdAt = 1000\<rparr>,
                 PostToRelay \<lparr>system = ''You are a mentor.'', memory = ''No saved memory yet.'',
                     imageDataUrl = None, messages = [\<lparr>role = User, content = ''hi''\<rparr>]\<rparr>,
                 AddMessage ''u1'' ''main''
                   \<lparr>role = Assistant, content = ''Hello'', createdAt = 2000\<rparr>],
      outcome = Returned ()\<rparr>"
    by (simp add: handleSendText_def try_send_def t mentor_call_def sendMentorChat_def
          replying_world_def failing_world_def signed_in_def relay_up_def falsy_def ok_def
          memorySummary_def addMessage_def add_doc_def THREAD_ID_def Let_def)
  have a: "AddMessage ''u1'' ''main'' \<lparr>role = Assistant, content = ''Hello'', createdAt = 2000\<rparr>
             \<in> set (effects (handleSendText replying_world empty_store signed_in '' hi '' False))
           \<and> role \<lparr>role = Assistant, content = ''Hello'', createdAt = 2000\<rparr> = Assistant"
    by (simp add: r)
  have m: "message_docs (db (handleSendText replying_world empty_store signed_in '' hi '' False))
         (''u1'', ''main'') =
       [(''doc1'', \<lparr>role = User, content = ''hi'', createdAt = 1000\<rparr>),
        (''doc2'', \<lparr>role = Assistant, content = ''Hello'', createdAt = 2000\<rparr>)]"
    by (simp only: r) (simp add: add_doc_def empty_store_def THREAD_ID_def)
  from send_turns [of failing_world empty_store signed_in "'' hi ''" False] h
  have f: "message_docs (db (handleSendText failing_world empty_store signed_in '' hi '' False)) =
         (message_docs empty_store)((''u1'', THREAD_ID) :=
            message_docs empty_store (''u1'', THREAD_ID) @ [(''doc1'', user_turn failing_world '' hi '')])
       \<and> effects (handleSendText failing_world empty_store signed_in '' hi '' False) =
           AddMessage ''u1'' THREAD_ID (user_turn failing_world '' hi '')
           # map PostToRelay (fst (mentor_call failing_world signed_in (trim '' hi '')))
       \<and> error_state (state (handleSendText failing_world empty_store signed_in '' hi '' False)) =
           Some ''Unable to reach the mentor right now.''"
    by blast
  from send_turns [of replying_world empty_store signed_in "'' hi ''" False] a
  have g: "snd (mentor_call replying_world signed_in (trim '' hi '')) =
          Returned (content \<lparr>role = Assistant, content = ''Hello'', createdAt = 2000\<rparr>)"
    by blast
  have f1: "message_docs (db (handleSendText failing_world empty_store signed_in '' hi '' False))
         (''u1'', ''main'') =
       [(''doc1'', \<lparr>role = User, content = ''hi'', createdAt = 1000\<rparr>)]"
    using f by (simp add: u THREAD_ID_def empty_store_def)
  have f2: "effects (handleSendText failing_world empty_store signed_in '' hi '' False) =
       [AddMessage ''u1'' ''main'' \<lparr>role = User, content = ''hi'', createdAt = 1000\<rparr>,
        PostToRelay \<lparr>system = ''You are a mentor.'', memory = ''No saved memory yet.'',
                     imageDataUrl = None, messages = [\<lparr>role = User, content = ''hi''\<rparr>]\<rparr>]"
    using f by (simp add: u t c THREAD_ID_def)
  from h f f1 f2 g m show ?thesis by simp
qed

section \<open>The drawing surface: properties\<close>

subsection \<open>The dirty flag, the canvas and the line-tool moves\<close>

lemma fst_track: "fst (track e sg) = handle e (fst sg)"
  by (simp add: track_def)

lemma fst_fold_track: "fst (fold track events sg) = after events (fst sg)"
  unfolding after_def by (induction events arbitrary: sg) (simp_all add: fst_track)

lemma board_inv_mount: "board_inv (mount c, False)"
  by (cases c) (simp_all add: board_inv_def mount_def drawn_since_clear_def available_def)

lemma board_inv_Clear: "board_inv (s, g) \<Longrightarrow> board_inv (track Clear (s, g))"
  by (auto simp: board_inv_def track_def line_move_def clearCanvas_def drawn_since_clear_def
                 available_def split: option.splits)

lemma board_inv_PointerDown: "board_inv (s, g) \<Longrightarrow> board_inv (track (PointerDown event) (s, g))"
  by (auto simp: board_inv_def track_def line_move_def handlePointerDown_def getPoint_def
                 drawn_since_clear_def available_def split: option.splits)

lemma board_inv_PointerMove: "board_inv (s, g) \<Longrightarrow> board_inv (track (PointerMove event) (s, g))"
  by (auto simp: board_inv_def track_def line_move_def handlePointerMove_def getPoint_def
                 drawn_since_clear_def available_def paint_def split: option.splits)

lemma handlePointerUp_inv:
  "board_inv (s, g) \<Longrightarrow> board_inv (handlePointerUp event s, g)"
  by (auto simp: board_inv_def handlePointerUp_def getPoint_def
                 drawn_since_clear_def available_def paint_def Let_def split: option.splits)

lemma board_inv_track: "board_inv sg \<Longrightarrow> board_inv (track e sg)"
proof (cases sg)
  case (Pair s g)
  assume "board_inv sg"
  with Pair have i: "board_inv (s, g)" by simp
  show ?thesis
  proof (cases e)
    case (PointerDown event)
    with i Pair show ?thesis by (simp add: board_inv_PointerDown)
  next
    case (PointerMove event)
    with i Pair show ?thesis by (simp add: board_inv_PointerMove)
  next
    case (PointerUp event)
    with handlePointerUp_inv [OF i, of event] Pair show ?thesis
      by (simp add: track_def line_move_def)
  next
    case (PointerLeave event)
    with handlePointerUp_inv [OF i, of event] Pair show ?thesis
      by (simp add: track_def line_move_def)
  next
    case Clear
    with i Pair show ?thesis by (simp add: board_inv_Clear)
  next
    case (SetTool t)
    with i Pair show ?thesis
      by (simp add: track_def line_move_def board_inv_def drawn_since_clear_def available_def)
  next
    case (PickColor swatch)
    with i Pair show ?thesis
      by (simp add: track_def line_move_def board_inv_def drawn_since_clear_def available_def)
  next
    case (SetSize n)
    with i Pair show ?thesis
      by (simp add: track_def line_move_def board_inv_def drawn_since_clear_def available_def)
  qed
qed

lemma board_inv_fold: "board_inv sg \<Longrightarrow> board_inv (fold track events sg)"
  by (induction events arbitrary: sg) (simp_all add: board_inv_track)

lemma board_inv_after:
  "board_inv (after events (mount c), line_moved_since_clear events c)"
proof -
  have "board_inv (fold track events (mount c, False))"
    by (rule board_inv_fold) (rule board_inv_mount)
  moreover have "fold track events (mount c, False) =
                   (after events (mount c), line_moved_since_clear events c)"
    using fst_fold_track [of events "(mount c, False)"]
    by (simp add: line_moved_since_clear_def prod_eq_iff)
  ultimately show ?thesis by simp
qed

subsection \<open>Without the line tool no line-tool move happens\<close>

lemma tool_handle:
  "e \<noteq> SetTool Line \<Longrightarrow> tool s \<noteq> Line \<Longrightarrow> tool (handle e s) \<noteq> Line"
  by (cases e)
     (auto simp: handlePointerDown_def handlePointerMove_def handlePointerUp_def clearCanvas_def
                 Let_def split: option.splits)

lemma pen_only_track:
  "e \<noteq> SetTool Line \<Longrightarrow> pen_only sg \<Longrightarrow> pen_only (track e sg)"
  using tool_handle [of e "fst sg"]
  by (auto simp: pen_only_def track_def line_move_def split: board_event.splits)

lemma pen_only_fold:
  "\<forall>e\<in>set events. e \<noteq> SetTool Line \<Longrightarrow> pen_only sg \<Longrightarrow> pen_only (fold track events sg)"
  by (induction events arbitrary: sg) (simp_all add: pen_only_track)

lemma no_line_tool_no_line_move:
  assumes "\<forall>e\<in>set events. e \<noteq> SetTool Line"
  shows "\<not> line_moved_since_clear events c"
proof -
  have "pen_only (mount c, False)" by (simp add: pen_only_def mount_def)
  from pen_only_fold [OF assms this] show ?thesis
    by (simp add: pen_only_def line_moved_since_clear_def)
qed

section \<open>The drawing surface: the claims\<close>

text \<open>
  C9. After any sequence of events on a newly mounted component: clear() leaves the dirty
  flag unset; has-content() is the dirty flag; the flag is set, and get-snapshot() returns
  the image encoding of the mounted canvas, exactly when something was drawn since the
  last clear or the pointer has moved during a line-tool drag since the last clear,
  and none otherwise. On every sequence that never selects the line tool, get-snapshot()
  returns an encoding exactly when something was drawn since the last clear. The
  line-tool move is where the code leaves the claim: with the line tool selected, after a
  press and one move, the flag is set and a snapshot is returned although nothing has
  been drawn.
\<close>

theorem snapshot_and_drawing:
  "\<not> dirty (clearCanvas (after events (mount c)))
   \<and> hasDrawing (after events (mount c)) = dirty (after events (mount c))
   \<and> (dirty (after events (mount c)) \<longleftrightarrow>
        drawn_since_clear (after events (mount c)) \<or> line_moved_since_clear events c)
   \<and> getDataUrl toDataURL (after events (mount c)) =
       (case canvasRef (after events (mount c)) of
          None \<Rightarrow> None
        | Some element \<Rightarrow>
            if drawn_since_clear (after events (mount c)) \<or> line_moved_since_clear events c
            then Some (toDataURL element) else None)
   \<and> ((\<forall>e\<in>set events. e \<noteq> SetTool Line) \<longrightarrow>
        (getDataUrl toDataURL (after events (mount c)) \<noteq> None \<longleftrightarrow>
           drawn_since_clear (after events (mount c))))
   \<and> getDataUrl stroke_count_png
         (after [SetTool Line, PointerDown press, PointerMove drag] (mount (Some sheet))) =
       Some ''data:image/png;base64,''
   \<and> hasDrawing (after [SetTool Line, PointerDown press, PointerMove drag] (mount (Some sheet)))
   \<and> \<not> drawn_since_clear
         (after [SetTool Line, PointerDown press, PointerMove drag] (mount (Some sheet)))"
proof -
  let ?s = "after events (mount c)"
  let ?g = "line_moved_since_clear events c"
  have inv: "board_inv (?s, ?g)" by (rule board_inv_after)
  then have d: "dirty ?s \<longleftrightarrow> drawn_since_clear ?s \<or> ?g"
    and a: "dirty ?s \<longrightarrow> available ?s"
    by (simp_all add: board_inv_def)
  have c1: "\<not> dirty (clearCanvas ?s)"
    using a by (auto simp: clearCanvas_def available_def split: option.splits)
  have c2: "hasDrawing ?s = dirty ?s" by (simp add: hasDrawing_def)
  have c4: "getDataUrl toDataURL ?s =
       (case canvasRef ?s of
          None \<Rightarrow> None
        | Some element \<Rightarrow>
            if drawn_since_clear ?s \<or> ?g then Some (toDataURL element) else None)"
    using d by (simp add: getDataUrl_def split: option.split)
  have c5: "(\<forall>e\<in>set events. e \<noteq> SetTool Line) \<longrightarrow>
        (getDataUrl toDataURL ?s \<noteq> None \<longleftrightarrow> drawn_since_clear ?s)"
  proof
    assume "\<forall>e\<in>set events. e \<noteq> SetTool Line"
    then have "\<not> ?g" by (rule no_line_tool_no_line_move)
    with d a show "getDataUrl toDataURL ?s \<noteq> None \<longleftrightarrow> drawn_since_clear ?s"
      by (auto simp: getDataUrl_def available_def split: option.splits)
  qed
  have c6: "getDataUrl stroke_count_png
         (after [SetTool Line, PointerDown press, PointerMove drag] (mount (Some sheet))) =
       Some ''data:image/png;base64,''
   \<and> hasDrawing (after [SetTool Line, PointerDown press, PointerMove drag] (mount (Some sheet)))
   \<and> \<not> drawn_since_clear
         (after [SetTool Line, PointerDown press, PointerMove drag] (mount (Some sheet)))"
    by (simp add: after_def mount_def sheet_def press_def drag_def handlePointerDown_def
          handlePointerMove_def getPoint_def getDataUrl_def hasDrawing_def drawn_since_clear_def
          stroke_count_png_def)
  from c1 c2 d c4 c5 c6 show ?thesis by blast
qed

theorem snapshot_and_drawing_witness:
  "drawn_since_clear (after [PointerDown press, PointerMove drag] (mount (Some sheet)))
   \<and> getDataUrl stroke_count_png (after [PointerDown press, PointerMove drag] (mount (Some sheet)))
       = Some ''data:image/png;base64,A''
   \<and> getDataUrl stroke_count_png (after [PointerDown press] (mount (Some sheet))) = None
   \<and> \<not> dirty (clearCanvas (after [PointerDown press, PointerMove drag] (mount (Some sheet))))
   \<and> line_moved_since_clear [SetTool Line, PointerDown press, PointerMove drag] (Some sheet)
   \<and> dirty (after [SetTool Line, PointerDown press, PointerMove drag] (mount (Some sheet)))"
proof -
  let ?pen = "[PointerDown press, PointerMove drag]"
  let ?s = "after ?pen (mount (Some sheet))"
  have s: "?s = \<lparr>canvasRef = Some (sheet\<lparr>bitmap :=
                      [\<lparr>moveTo = (5, 5), lineTo = (30, 40), lineWidth = 3,
                        globalCompositeOperation = ''source-over'',
                        strokeStyle = ''#0b1420''\<rparr>]\<rparr>),
                 drawingRef = True, lastPointRef = Some (30, 40), lineStartRef = Some (5, 5),
                 dirty = True, tool = Pen, color = ''#0b1420'', pen_size = 3\<rparr>"
    by (simp add: after_def mount_def sheet_def press_def drag_def handlePointerDown_def
          handlePointerMove_def getPoint_def paint_def COLORS_def)
  have d: "drawn_since_clear ?s" by (simp add: s drawn_since_clear_def)
  have p: "\<forall>e\<in>set ?pen. e \<noteq> SetTool Line" by simp
  have q: "\<forall>e\<in>set [PointerDown press]. e \<noteq> SetTool Line" by simp
  have n: "\<not> drawn_since_clear (after [PointerDown press] (mount (Some sheet)))"
    by (simp add: after_def mount_def sheet_def press_def handlePointerDown_def getPoint_def
          drawn_since_clear_def)
  have l: "line_moved_since_clear [SetTool Line, PointerDown press, PointerMove drag] (Some sheet)"
    by (simp add: line_moved_since_clear_def track_def line_move_def mount_def sheet_def
          press_def drag_def handlePointerDown_def getPoint_def available_def)
  from snapshot_and_drawing [of ?pen "Some sheet" stroke_count_png]
  have g: "getDataUrl stroke_count_png ?s =
             (case canvasRef ?s of
                None \<Rightarrow> None
              | Some element \<Rightarrow>
                  if drawn_since_clear ?s \<or> line_moved_since_clear ?pen (Some sheet)
                  then Some (stroke_count_png element) else None)"
    and c: "\<not> dirty (clearCanvas ?s)"
    by blast+
  have cr: "canvasRef ?s = Some (sheet\<lparr>bitmap :=
                      [\<lparr>moveTo = (5, 5), lineTo = (30, 40), lineWidth = 3,
                        globalCompositeOperation = ''source-over'',
                        strokeStyle = ''#0b1420''\<rparr>]\<rparr>)"
    by (simp add: s)
  have "getDataUrl stroke_count_png ?s =
          Some (stroke_count_png (sheet\<lparr>bitmap :=
                      [\<lparr>moveTo = (5, 5), lineTo = (30, 40), lineWidth = 3,
                        globalCompositeOperation = ''source-over'',
                        strokeStyle = ''#0b1420''\<rparr>]\<rparr>))"
    by (simp only: g d cr option.case simp_thms if_True)
  then have g': "getDataUrl stroke_count_png ?s = Some ''data:image/png;base64,A''"
    by (simp add: stroke_count_png_def)
  from snapshot_and_drawing [of "[PointerDown press]" "Some sheet" stroke_count_png] q n
  have e: "getDataUrl stroke_count_png (after [PointerDown press] (mount (Some sheet))) = None"
    by blast
  from snapshot_and_drawing
         [of "[SetTool Line, PointerDown press, PointerMove drag]" "Some sheet" stroke_count_png] l
  have m: "dirty (after [SetTool Line, PointerDown press, PointerMove drag] (mount (Some sheet)))"
    by blast
  from d g' e c l m show ?thesis by blast
qed

end
